theory Spec2Isabelle
  imports Complex_Main
begin

section \<open>Video clipper page: job state and status pollers\<close>

text \<open>
  The development embeds the job handling of \<^verbatim>\<open>VideoClipperPage\<close> in
  \<^verbatim>\<open>src/frontend/src/App.jsx\<close>: the three pollers \<^verbatim>\<open>startSmartPolling\<close>,
  \<^verbatim>\<open>startRenderPolling\<close> and \<^verbatim>\<open>startPolling\<close>, the cancel handler \<^verbatim>\<open>cancelJob\<close> and
  the two effects that persist and resume the current job.

  Conventions of the embedding.
  \<^item> A JavaScript string is a \<open>string\<close>; an absent (\<^verbatim>\<open>undefined\<close>) string field is the
    empty string, which is falsy as \<^verbatim>\<open>undefined\<close> is. The status is kept as a string, since
    the page stores whatever the server sends and only compares it with literals.
  \<^item> \<^verbatim>\<open>progress\<close> is a fraction; it is only stored and compared, so it is a \<open>rat\<close>.
  \<^item> The outcome of a \<^verbatim>\<open>fetch\<close> followed by \<^verbatim>\<open>res.json()\<close> is a value of type \<open>fetched\<close>:
    the fetch rejects (\<open>NetworkError\<close>), or it resolves with an HTTP status code and a
    body that parses (\<open>Some\<close>) or makes \<^verbatim>\<open>res.json()\<close> throw (\<open>None\<close>).
  \<^item> Every request the page issues, every \<^verbatim>\<open>setCurrentJob\<close> and every \<^verbatim>\<open>alert\<close> is appended
    to a trace, stamped with the time of the timer tick that caused it.
  \<^item> Long user-facing messages are kept up to their first sentence, without the
    non-ASCII warning sign.
  \<^item> The log list, the clip list and the settings of the page are not part of the state:
    no function below branches on them. The continuation of \<^verbatim>\<open>fetchSmartResults\<close>, which
    stores the clips and sets the phase to \<open>done\<close> when the results arrive, is left out
    with them; the request itself is in the trace.
\<close>

subsection \<open>Data\<close>

record job =
  job_id :: string
  status :: string
  progress :: rat
  stage :: string
  detail :: string
  error :: string

text \<open>The JSON body of \<^verbatim>\<open>GET /api/clipper/job/{id}\<close> as the pollers read it.\<close>

record job_data =
  d_status :: string
  d_progress :: rat
  d_stage :: string
  d_detail :: string
  d_error :: string

datatype 'a fetched = NetworkError | Http nat "'a option"

datatype event =
    GetJobStatus string
  | GetJobLogs string
  | GetSmartResults string
  | GetJobResult string
  | PostCancel string
  | SetCurrentJob "job option"
  | Alert string

text \<open>
  The value under the key \<^verbatim>\<open>clipper_current_job\<close> of the browser storage: the empty
  string, text on which
  \<^verbatim>\<open>JSON.parse\<close> or the destructuring throws, or an object with \<^verbatim>\<open>id\<close> and \<^verbatim>\<open>startedAt\<close>
  (\<open>None\<close> when \<^verbatim>\<open>startedAt\<close> is not a number, so that the age is \<^verbatim>\<open>NaN\<close>).
\<close>

datatype stored = EmptyText | Unparsable | SavedJob string "int option"

text \<open>
  What one firing of a polling timer receives: the outcome of the status fetch, whether
  \<^verbatim>\<open>Math.random() < 0.2\<close> held, and the outcome of the results fetch (the number of clips
  in the body), which only \<^verbatim>\<open>startRenderPolling\<close> awaits.
\<close>

record tick_input =
  status_res :: "job_data fetched"
  random_lt :: bool
  results_res :: "nat fetched"

record client =
  currentJob :: "job option"
  clipperPhase :: string
  saved_job :: "stored option"
  polling :: bool
  interval_ms :: nat
  poll_job :: string
  notFoundCount :: nat
  pollErrorCount :: nat
  clock :: nat
  trace :: "(nat \<times> event) list"

text \<open>
  \<open>polling\<close> says that the interval created by the last \<^verbatim>\<open>setInterval\<close> is still
  registered, \<open>interval_ms\<close> is its period and \<open>poll_job\<close> the \<^verbatim>\<open>jobId\<close> its callback
  closes over. \<open>notFoundCount\<close> is the local counter of \<^verbatim>\<open>startSmartPolling\<close>,
  \<open>pollErrorCount\<close> is \<^verbatim>\<open>pollErrorCountRef.current\<close>. \<open>clock\<close> is the time in
  milliseconds.
\<close>

subsection \<open>State updates\<close>

definition emit :: "event \<Rightarrow> client \<Rightarrow> client" where
  "emit e c = c\<lparr>trace := trace c @ [(clock c, e)]\<rparr>"

definition setCurrentJob :: "job option \<Rightarrow> client \<Rightarrow> client" where
  "setCurrentJob j c = emit (SetCurrentJob j) (c\<lparr>currentJob := j\<rparr>)"

definition no_job :: job where
  "no_job = \<lparr>job_id = '''', status = '''', progress = 0, stage = '''', detail = '''', error = ''''\<rparr>"

text \<open>\<^verbatim>\<open>setCurrentJob(prev => ({...prev, ...}))\<close>: spreading \<^verbatim>\<open>null\<close> gives no fields.\<close>

definition update_job :: "(job \<Rightarrow> job) \<Rightarrow> client \<Rightarrow> client" where
  "update_job f c =
     setCurrentJob (Some (f (case currentJob c of None \<Rightarrow> no_job | Some j \<Rightarrow> j))) c"

text \<open>\<^verbatim>\<open>clearInterval(interval); setPollInterval(null)\<close>\<close>

definition clearInterval :: "client \<Rightarrow> client" where
  "clearInterval c = c\<lparr>polling := False\<rparr>"

definition setClipperPhase :: "string \<Rightarrow> client \<Rightarrow> client" where
  "setClipperPhase p c = c\<lparr>clipperPhase := p\<rparr>"

definition removeItem :: "client \<Rightarrow> client" where
  "removeItem c = c\<lparr>saved_job := None\<rparr>"

text \<open>\<^verbatim>\<open>a || b\<close> on strings.\<close>

definition js_or :: "string \<Rightarrow> string \<Rightarrow> string" where
  "js_or a b = (if a \<noteq> [] then a else b)"

subsection \<open>The timer\<close>

text \<open>
  \<^verbatim>\<open>setInterval(callback, ms)\<close>: while the interval is registered the callback fires every
  \<open>interval_ms\<close> milliseconds. Each element of the input list is what one firing
  receives. A callback has finished when the next one fires: \<open>run\<close> is one interval
  whose callbacks do not overlap, as the claims about consecutive responses need it. The
  callbacks of the source are \<^verbatim>\<open>async\<close>, so a reply that takes longer than the period
  lets two of them overlap; that is outside \<open>run\<close>. Several intervals at once are the
  subject of the section on the page across mounts.
\<close>

fun run :: "(tick_input \<Rightarrow> client \<Rightarrow> client) \<Rightarrow> client \<Rightarrow> tick_input list \<Rightarrow> client" where
  "run tick c [] = c"
| "run tick c (i # is) =
     (if polling c then run tick (tick i (c\<lparr>clock := clock c + interval_ms c\<rparr>)) is else c)"

subsection \<open>startSmartPolling\<close>

definition job_lost_smart :: "job \<Rightarrow> job" where
  "job_lost_smart prev =
     prev\<lparr>status := ''failed'',
          error := ''Job lost - server may have restarted. Please try again.''\<rparr>"

definition copy_status :: "job_data \<Rightarrow> job \<Rightarrow> job" where
  "copy_status d prev =
     prev\<lparr>status := d_status d, progress := d_progress d, stage := d_stage d,
          detail := d_detail d\<rparr>"

definition startSmartPolling :: "string \<Rightarrow> client \<Rightarrow> client" where
  "startSmartPolling jobId c =
     c\<lparr>polling := True, interval_ms := 2000, poll_job := jobId, notFoundCount := 0\<rparr>"

definition smart_tick :: "tick_input \<Rightarrow> client \<Rightarrow> client" where
  "smart_tick i c0 =
    (let c = emit (GetJobStatus (poll_job c0)) c0 in
     case status_res i of
       NetworkError \<Rightarrow> c
     | Http code body \<Rightarrow>
         if code = 404 then
           (let c1 = c\<lparr>notFoundCount := notFoundCount c + 1\<rparr> in
            if notFoundCount c1 \<ge> 3
            then setClipperPhase ''input'' (update_job job_lost_smart (clearInterval c1))
            else c1)
         else
           (let c1 = c\<lparr>notFoundCount := 0\<rparr> in
            case body of
              None \<Rightarrow> c1
            | Some d \<Rightarrow>
                (let c2 = emit (GetJobLogs (poll_job c1)) c1;
                     c3 = update_job (copy_status d) c2 in
                 if d_status d = ''processing'' then
                   (let c4 = setClipperPhase ''downloading'' c3 in
                    if random_lt i then emit (GetSmartResults (poll_job c4)) c4 else c4)
                 else if d_status d = ''completed'' then
                   removeItem (emit (GetSmartResults (poll_job c3)) (clearInterval c3))
                 else if d_status d = ''failed'' then
                   setClipperPhase ''input''
                     (removeItem
                       (update_job (\<lambda>prev. prev\<lparr>error := js_or (d_error d) (d_detail d)\<rparr>)
                         (clearInterval c3)))
                 else c3)))"

subsection \<open>startRenderPolling\<close>

definition startRenderPolling :: "string \<Rightarrow> client \<Rightarrow> client" where
  "startRenderPolling jobId c = c\<lparr>polling := True, interval_ms := 2000, poll_job := jobId\<rparr>"

definition render_tick :: "tick_input \<Rightarrow> client \<Rightarrow> client" where
  "render_tick i c0 =
    (let c = emit (GetJobStatus (poll_job c0)) c0 in
     case status_res i of
       NetworkError \<Rightarrow> c
     | Http code body \<Rightarrow>
         (case body of
            None \<Rightarrow> c
          | Some d \<Rightarrow>
              (let c2 = emit (GetJobLogs (poll_job c)) c;
                   c3 = update_job (copy_status d) c2 in
               if d_status d = ''completed'' then
                 (let c4 = emit (GetSmartResults (poll_job c3)) (clearInterval c3) in
                  case results_res i of
                    NetworkError \<Rightarrow> c4
                  | Http rcode None \<Rightarrow> c4
                  | Http rcode (Some n) \<Rightarrow>
                      if n > 0 then setClipperPhase ''done'' c4
                      else setClipperPhase ''select''
                             (emit (Alert ''Rendering completed but no clips found. Check logs.'') c4))
               else if d_status d = ''failed'' then
                 setClipperPhase ''select''
                   (emit (Alert (''Rendering failed: '' @
                                 js_or (d_error d) (js_or (d_detail d) ''Unknown error'')))
                      (clearInterval c3))
               else c3)))"

subsection \<open>startPolling\<close>

definition server_crashed :: "string \<Rightarrow> job" where
  "server_crashed jobId =
     \<lparr>job_id = jobId, status = ''failed'', progress = 0, stage = ''Server Crashed'',
      detail = ''Out of memory'',
      error = ''Server ran out of memory while loading Whisper model.''\<rparr>"

definition job_lost :: "string \<Rightarrow> job" where
  "job_lost jobId =
     \<lparr>job_id = jobId, status = ''failed'', progress = 0, stage = ''Job Lost'',
      detail = ''Server restarted'',
      error = ''Job was lost because the server restarted (likely crashed from low memory).''\<rparr>"

definition connection_lost :: "string \<Rightarrow> job" where
  "connection_lost jobId =
     \<lparr>job_id = jobId, status = ''failed'', progress = 0, stage = ''Connection Lost'',
      detail = ''Network error'',
      error = ''Lost connection to server.''\<rparr>"

definition startPolling :: "string \<Rightarrow> client \<Rightarrow> client" where
  "startPolling jobId c =
     c\<lparr>polling := True, interval_ms := 2000, poll_job := jobId, pollErrorCount := 0\<rparr>"

text \<open>The \<^verbatim>\<open>catch\<close> block of the callback of \<^verbatim>\<open>startPolling\<close>.\<close>

definition polling_catch :: "client \<Rightarrow> client" where
  "polling_catch c =
    (let c1 = c\<lparr>pollErrorCount := pollErrorCount c + 1\<rparr> in
     if pollErrorCount c1 \<ge> 5
     then setCurrentJob (Some (connection_lost (poll_job c1))) (clearInterval c1)
     else c1)"

definition polling_tick :: "tick_input \<Rightarrow> client \<Rightarrow> client" where
  "polling_tick i c0 =
    (let c = emit (GetJobStatus (poll_job c0)) c0 in
     case status_res i of
       NetworkError \<Rightarrow> polling_catch c
     | Http code body \<Rightarrow>
         if code = 502 \<or> code = 503 \<or> code = 500 then
           (let c1 = c\<lparr>pollErrorCount := pollErrorCount c + 1\<rparr> in
            if pollErrorCount c1 \<ge> 3
            then setCurrentJob (Some (server_crashed (poll_job c1))) (clearInterval c1)
            else c1)
         else if code = 404 then
           (let c1 = c\<lparr>pollErrorCount := pollErrorCount c + 1\<rparr> in
            if pollErrorCount c1 \<ge> 2
            then setCurrentJob (Some (job_lost (poll_job c1))) (clearInterval c1)
            else c1)
         else
           (let c1 = c\<lparr>pollErrorCount := 0\<rparr> in
            case body of
              None \<Rightarrow> polling_catch c1
            | Some d \<Rightarrow>
                (let c2 = setCurrentJob
                            (Some \<lparr>job_id = poll_job c1, status = d_status d,
                                   progress = d_progress d, stage = d_stage d,
                                   detail = d_detail d, error = d_error d\<rparr>) c1 in
                 if d_status d = ''completed'' then
                   emit (GetJobResult (poll_job c2)) (clearInterval c2)
                 else if d_status d = ''failed'' \<or> d_status d = ''cancelled'' then
                   clearInterval c2
                 else c2)))"

subsection \<open>Starting a job\<close>

text \<open>
  The branch \<^verbatim>\<open>if (data.job_id)\<close> of \<^verbatim>\<open>handleFileUpload\<close> and of \<^verbatim>\<open>handleYoutubeSubmit\<close>:
  the job is shown as processing and its poller is started. \<^verbatim>\<open>handleYoutubeSubmit\<close> has set
  the phase to \<open>downloading\<close> before it sent the request.
\<close>

definition upload_accepted :: "string \<Rightarrow> client \<Rightarrow> client" where
  "upload_accepted jobId c =
     startPolling jobId
       (setCurrentJob
          (Some \<lparr>job_id = jobId, status = ''processing'', progress = 0, stage = ''Starting'',
                 detail = '''', error = ''''\<rparr>) c)"

definition analyze_accepted :: "string \<Rightarrow> bool \<Rightarrow> client \<Rightarrow> client" where
  "analyze_accepted jobId cached c =
     startSmartPolling jobId
       (setCurrentJob
          (Some \<lparr>job_id = jobId, status = ''processing'', progress = 0,
                 stage = (if cached then ''Using cached video'' else ''Downloading video...''),
                 detail = '''', error = ''''\<rparr>)
          (setClipperPhase ''downloading'' c))"

text \<open>The state of the page when it has just been mounted at time \<open>now\<close>.\<close>

definition page_load :: "stored option \<Rightarrow> nat \<Rightarrow> client" where
  "page_load s now =
     \<lparr>currentJob = None, clipperPhase = ''input'', saved_job = s, polling = False,
      interval_ms = 0, poll_job = '''', notFoundCount = 0, pollErrorCount = 0,
      clock = now, trace = []\<rparr>"

subsection \<open>cancelJob\<close>

text \<open>The argument is the outcome of the cancel request; the body is \<^verbatim>\<open>data.cancelled\<close>.\<close>

definition cancelJob :: "bool fetched \<Rightarrow> client \<Rightarrow> client" where
  "cancelJob res c =
    (case currentJob c of
       None \<Rightarrow> c
     | Some j \<Rightarrow>
         if job_id j = [] then c
         else
           (let c1 = emit (PostCancel (job_id j)) c in
            case res of
              NetworkError \<Rightarrow> c1
            | Http code None \<Rightarrow> c1
            | Http code (Some cancelled) \<Rightarrow>
                if cancelled then
                  update_job (\<lambda>prev. prev\<lparr>status := ''cancelling'', stage := ''Cancelling...'',
                       detail := ''Waiting for current operation to complete''\<rparr>) c1
                else c1))"

subsection \<open>Persisting and resuming the current job\<close>

text \<open>
  The effect on \<^verbatim>\<open>[currentJob?.id, currentJob?.status]\<close>; \<^verbatim>\<open>Date.now()\<close> is the clock.
\<close>

definition persist_effect :: "client \<Rightarrow> client" where
  "persist_effect c =
    (case currentJob c of
       None \<Rightarrow> c
     | Some j \<Rightarrow>
         if job_id j \<noteq> [] \<and> status j = ''processing''
         then c\<lparr>saved_job := Some (SavedJob (job_id j) (Some (int (clock c))))\<rparr>
         else c)"

text \<open>
  The effect that runs once when the page is mounted. \<open>EmptyText\<close> is the falsy empty
  string, on which nothing is done.
\<close>

definition resume_effect :: "client \<Rightarrow> client" where
  "resume_effect c =
    (case saved_job c of
       None \<Rightarrow> c
     | Some s \<Rightarrow>
         if s = EmptyText \<or> currentJob c \<noteq> None then c
         else
           (case s of
              SavedJob jid (Some startedAt) \<Rightarrow>
                if int (clock c) - startedAt < 30 * 60 * 1000 then
                  startSmartPolling jid
                    (setClipperPhase ''downloading''
                       (setCurrentJob
                          (Some \<lparr>job_id = jid, status = ''resuming'', progress = 0,
                                 stage = ''Reconnecting...'', detail = '''', error = ''''\<rparr>) c))
                else removeItem c
            | _ \<Rightarrow> removeItem c))"

subsection \<open>Observations on traces and inputs\<close>

fun is_status_fetch :: "event \<Rightarrow> bool" where
  "is_status_fetch (GetJobStatus j) = True"
| "is_status_fetch e = False"

definition status_fetch_times :: "(nat \<times> event) list \<Rightarrow> nat list" where
  "status_fetch_times tr = map fst (filter (\<lambda>te. is_status_fetch (snd te)) tr)"

fun is_request :: "event \<Rightarrow> bool" where
  "is_request (SetCurrentJob j) = False"
| "is_request (Alert m) = False"
| "is_request e = True"

definition requests :: "(nat \<times> event) list \<Rightarrow> event list" where
  "requests tr = filter is_request (map snd tr)"

fun recorded :: "event \<Rightarrow> job list" where
  "recorded (SetCurrentJob (Some j)) = [j]"
| "recorded e = []"

text \<open>The jobs the page has shown, oldest first.\<close>

definition job_history :: "(nat \<times> event) list \<Rightarrow> job list" where
  "job_history tr = concat (map (\<lambda>te. recorded (snd te)) tr)"

definition processing_progress :: "(nat \<times> event) list \<Rightarrow> rat list" where
  "processing_progress tr =
     map progress (filter (\<lambda>j. status j = ''processing'') (job_history tr))"

definition terminal :: "string \<Rightarrow> bool" where
  "terminal s \<longleftrightarrow> s = ''completed'' \<or> s = ''failed'' \<or> s = ''cancelled''"

definition terminal_statuses :: "(nat \<times> event) list \<Rightarrow> string list" where
  "terminal_statuses tr = filter terminal (map status (job_history tr))"

text \<open>The statuses at which a poller clears its interval.\<close>

definition smart_stop :: "string \<Rightarrow> bool" where
  "smart_stop s \<longleftrightarrow> s = ''completed'' \<or> s = ''failed''"

definition polling_stop :: "string \<Rightarrow> bool" where
  "polling_stop s \<longleftrightarrow> s = ''completed'' \<or> s = ''failed'' \<or> s = ''cancelled''"

text \<open>
  The body a callback reads as \<^verbatim>\<open>data\<close>: \<^verbatim>\<open>startSmartPolling\<close> returns early on 404,
  \<^verbatim>\<open>startPolling\<close> on 500, 502, 503 and 404, \<^verbatim>\<open>startRenderPolling\<close> never looks at the
  status code.
\<close>

definition smart_reported :: "tick_input \<Rightarrow> job_data option" where
  "smart_reported i =
     (case status_res i of
        NetworkError \<Rightarrow> None
      | Http code body \<Rightarrow> if code = 404 then None else body)"

definition render_reported :: "tick_input \<Rightarrow> job_data option" where
  "render_reported i =
     (case status_res i of NetworkError \<Rightarrow> None | Http code body \<Rightarrow> body)"

definition polling_reported :: "tick_input \<Rightarrow> job_data option" where
  "polling_reported i =
     (case status_res i of
        NetworkError \<Rightarrow> None
      | Http code body \<Rightarrow>
          if code = 502 \<or> code = 503 \<or> code = 500 \<or> code = 404 then None else body)"

text \<open>The progress values the server reported with status processing, in order.\<close>

definition server_progress :: "(tick_input \<Rightarrow> job_data option) \<Rightarrow> tick_input list \<Rightarrow> rat list" where
  "server_progress rep is =
     map d_progress (filter (\<lambda>d. d_status d = ''processing'') (List.map_filter rep is))"

definition not_found :: "tick_input \<Rightarrow> bool" where
  "not_found i = (case status_res i of NetworkError \<Rightarrow> False | Http code body \<Rightarrow> code = 404)"

definition server_error :: "tick_input \<Rightarrow> bool" where
  "server_error i =
     (case status_res i of
        NetworkError \<Rightarrow> False
      | Http code body \<Rightarrow> code = 502 \<or> code = 503 \<or> code = 500)"

definition transient :: "tick_input \<Rightarrow> bool" where
  "transient i \<longleftrightarrow> status_res i = NetworkError \<or> server_error i \<or> not_found i"

subsection \<open>Concrete inputs\<close>

definition data :: "string \<Rightarrow> rat \<Rightarrow> job_data" where
  "data s p = \<lparr>d_status = s, d_progress = p, d_stage = '''', d_detail = '''', d_error = ''''\<rparr>"

definition ok :: "job_data \<Rightarrow> tick_input" where
  "ok d = \<lparr>status_res = Http 200 (Some d), random_lt = False, results_res = Http 200 (Some 1)\<rparr>"

definition http_error :: "nat \<Rightarrow> tick_input" where
  "http_error code =
     \<lparr>status_res = Http code None, random_lt = False, results_res = NetworkError\<rparr>"

definition network_error :: tick_input where
  "network_error = \<lparr>status_res = NetworkError, random_lt = False, results_res = NetworkError\<rparr>"

subsection \<open>Properties of a callback\<close>

definition observes_completed :: "(tick_input \<Rightarrow> job_data option) \<Rightarrow> tick_input \<Rightarrow> bool" where
  "observes_completed rep i =
     (case rep i of None \<Rightarrow> False | Some d \<Rightarrow> d_status d = ''completed'')"

text \<open>A callback leaves the clock and the period alone and issues one status fetch.\<close>

definition tick_timed :: "(tick_input \<Rightarrow> client \<Rightarrow> client) \<Rightarrow> bool" where
  "tick_timed tick \<longleftrightarrow>
     (\<forall>i c. clock (tick i c) = clock c \<and> interval_ms (tick i c) = interval_ms c \<and>
            status_fetch_times (trace (tick i c)) = status_fetch_times (trace c) @ [clock c])"

text \<open>
  The three ways in which \<^verbatim>\<open>startPolling\<close> abandons a job: the interval is cleared and the
  job is replaced by a failed one. \<^verbatim>\<open>startSmartPolling\<close> keeps the job and marks it failed.
\<close>

definition gave_up :: "client \<Rightarrow> bool" where
  "gave_up c \<longleftrightarrow>
     \<not> polling c \<and>
     (currentJob c = Some (server_crashed (poll_job c)) \<or>
      currentJob c = Some (job_lost (poll_job c)) \<or>
      currentJob c = Some (connection_lost (poll_job c)))"

definition smart_gave_up :: "client \<Rightarrow> bool" where
  "smart_gave_up c \<longleftrightarrow>
     \<not> polling c \<and>
     (\<exists>j. currentJob c = Some j \<and> status j = ''failed'' \<and>
          error j = ''Job lost - server may have restarted. Please try again.'')"

text \<open>
  A callback adds to the progress values shown with status \<open>processing\<close> exactly the
  one its response carries with that status, if any.
\<close>

definition reported_progress :: "(tick_input \<Rightarrow> job_data option) \<Rightarrow> tick_input \<Rightarrow> rat list" where
  "reported_progress rep i =
     (case rep i of
        None \<Rightarrow> []
      | Some d \<Rightarrow> if d_status d = ''processing'' then [d_progress d] else [])"

definition mirrors :: "(tick_input \<Rightarrow> client \<Rightarrow> client) \<Rightarrow> (tick_input \<Rightarrow> job_data option) \<Rightarrow> bool" where
  "mirrors tick rep \<longleftrightarrow>
     (\<forall>i c. processing_progress (trace (tick i c)) =
            processing_progress (trace c) @ reported_progress rep i)"

text \<open>The number of callbacks that fire during a run: one per input while the interval is registered.\<close>

fun fired :: "(tick_input \<Rightarrow> client \<Rightarrow> client) \<Rightarrow> client \<Rightarrow> tick_input list \<Rightarrow> nat" where
  "fired tick c [] = 0"
| "fired tick c (i # is) =
     (if polling c then Suc (fired tick (tick i (c\<lparr>clock := clock c + interval_ms c\<rparr>)) is) else 0)"

subsection \<open>The progress a server reports\<close>

text \<open>
  Modelled from the spec: the status replies of a server that keeps the invariant of the
  spec's data model, ``progress \<open>\<in>\<close> [0,1]'' and ``a Job's progress is monotonically
  non-decreasing while status = processing''. The server that computes the progress is
  not among the sources; only the page that reads it is. \<open>rep\<close> selects the body a poller
  reads from what a firing receives.
\<close>

definition conforming :: "(tick_input \<Rightarrow> job_data option) \<Rightarrow> tick_input list \<Rightarrow> bool" where
  "conforming rep is \<longleftrightarrow>
     sorted (server_progress rep is) \<and>
     list_all (\<lambda>p. 0 \<le> p \<and> p \<le> 1) (server_progress rep is)"

text \<open>
  The progress values the page has shown with status \<open>processing\<close> between two of its
  states, oldest first: the observation points of a job.
\<close>

definition shown_progress :: "client \<Rightarrow> client \<Rightarrow> rat list" where
  "shown_progress c c' =
     drop (length (processing_progress (trace c))) (processing_progress (trace c'))"

subsection \<open>The page across mounts\<close>

text \<open>
  \<^verbatim>\<open>App\<close> renders \<^verbatim>\<open>VideoClipperPage\<close> only while \<^verbatim>\<open>currentPage === 'clipper'\<close>: leaving the
  Clipper tab unmounts the component, and coming back mounts a fresh instance whose state
  starts from the initial values of its \<^verbatim>\<open>useState\<close> calls. The browser keeps what is not
  React state: the storage, the clock, and every interval that has not been cleared.

  A \<open>browser\<close> holds every instance mounted so far, oldest first, each as a \<open>client\<close>
  with the state and the interval of its own, together with the kind of poller its
  interval runs; the last instance is the one on screen while \<open>mounted\<close> holds. The fields
  \<open>saved_job\<close>, \<open>clock\<close> and \<open>trace\<close> of an instance are its view of the storage, the time
  and the log of the browser: \<open>enter\<close> loads them before a function of the instance runs
  and \<open>leave\<close> writes them back. The log therefore also holds the \<^verbatim>\<open>setCurrentJob\<close> calls of
  an instance that is no longer on screen, which React ignores; \<open>requests\<close> does not read
  them.
\<close>

datatype poller = Smart | Render | Upload

fun callback :: "poller \<Rightarrow> tick_input \<Rightarrow> client \<Rightarrow> client" where
  "callback Smart = smart_tick"
| "callback Render = render_tick"
| "callback Upload = polling_tick"

record browser =
  instances :: "(poller \<times> client) list"
  mounted :: bool
  storage :: "stored option"
  now :: nat
  log :: "(nat \<times> event) list"

definition enter :: "browser \<Rightarrow> client \<Rightarrow> client" where
  "enter b c = c\<lparr>saved_job := storage b, clock := now b, trace := log b\<rparr>"

definition leave :: "nat \<Rightarrow> poller \<Rightarrow> client \<Rightarrow> browser \<Rightarrow> browser" where
  "leave k p c b =
     b\<lparr>instances := (instances b)[k := (p, c)], storage := saved_job c, log := trace c\<rparr>"

text \<open>
  The cleanup of the mount effect, \<^verbatim>\<open>if (pollInterval) clearInterval(pollInterval)\<close>. The
  effect has the dependency list \<^verbatim>\<open>[]\<close>, so the closure of its cleanup holds the
  \<^verbatim>\<open>pollInterval\<close> of the first render of the instance; the argument says whether that value
  is an interval. It never is: the state starts as \<^verbatim>\<open>useState(null)\<close>.
\<close>

definition mount_cleanup :: "bool \<Rightarrow> client \<Rightarrow> client" where
  "mount_cleanup captured c = (if captured then clearInterval c else c)"

text \<open>
  The persist effect runs after a render of the instance on screen in which
  \<^verbatim>\<open>currentJob?.id\<close> or \<^verbatim>\<open>currentJob?.status\<close> has changed; \<open>c\<close> is the instance before
  the change and \<open>c'\<close> after it.
\<close>

definition persist_rendered :: "client \<Rightarrow> client \<Rightarrow> client" where
  "persist_rendered c c' =
     (if map_option (\<lambda>j. (job_id j, status j)) (currentJob c') \<noteq>
         map_option (\<lambda>j. (job_id j, status j)) (currentJob c)
      then persist_effect c' else c')"

text \<open>A handler of the instance on screen.\<close>

definition on_screen :: "poller \<Rightarrow> (client \<Rightarrow> client) \<Rightarrow> browser \<Rightarrow> browser" where
  "on_screen p f b =
     (if mounted b \<and> instances b \<noteq> [] then
        (let c0 = enter b (snd (last (instances b)))
         in leave (length (instances b) - 1) p (persist_rendered c0 (f c0)) b)
      else b)"

text \<open>
  What happens in the browser: the user opens the Clipper tab or leaves it, a submission
  is accepted with a job id, or the interval of instance \<open>k\<close> fires and receives an input.
  An interval that has been cleared does not fire; the effects of an instance that is not
  on screen do not run.
\<close>

datatype action =
    Mount
  | Unmount
  | AnalyzeAccepted string bool
  | UploadAccepted string
  | Fire nat tick_input

fun act :: "action \<Rightarrow> browser \<Rightarrow> browser" where
  "act Mount b =
     (if mounted b then b
      else
        (let c0 = (page_load (storage b) (now b))\<lparr>trace := log b\<rparr>;
             c1 = persist_rendered c0 (resume_effect c0)
         in (leave (length (instances b)) Smart c1
               (b\<lparr>instances := instances b @ [(Smart, c0)]\<rparr>))\<lparr>mounted := True\<rparr>))"
| "act Unmount b =
     (if mounted b \<and> instances b \<noteq> [] then
        (leave (length (instances b) - 1) (fst (last (instances b)))
           (mount_cleanup False (enter b (snd (last (instances b))))) b)\<lparr>mounted := False\<rparr>
      else b)"
| "act (AnalyzeAccepted jobId cached) b = on_screen Smart (analyze_accepted jobId cached) b"
| "act (UploadAccepted jobId) b = on_screen Upload (upload_accepted jobId) b"
| "act (Fire k i) b =
     (if k < length (instances b) then
        (let p = fst (instances b ! k);
             c0 = enter b (snd (instances b ! k))
         in if polling c0 then
              (let c1 = callback p i c0
               in leave k p
                    (if mounted b \<and> Suc k = length (instances b)
                     then persist_rendered c0 c1 else c1) b)
            else b)
      else b)"

text \<open>A schedule gives each action its time in milliseconds.\<close>

fun steps :: "(nat \<times> action) list \<Rightarrow> browser \<Rightarrow> browser" where
  "steps [] b = b"
| "steps (ta # rest) b = steps rest (act (snd ta) (b\<lparr>now := fst ta\<rparr>))"

definition browser_start :: browser where
  "browser_start = \<lparr>instances = [], mounted = False, storage = None, now = 0, log = []\<rparr>"

text \<open>
  The user opens the Clipper tab and submits a video, accepted as job \<open>j1\<close> at 100 ms; the
  first interval fires at 2100 ms and then every 2000 ms. The user leaves the tab at
  3000 ms and comes back at 3500 ms, where the resume effect registers a second interval,
  which fires at 5500 ms. The server reports the job as processing at first and as
  completed from 4100 ms on.
\<close>

definition left_and_reopened :: "(nat \<times> action) list" where
  "left_and_reopened =
     [(0, Mount),
      (100, AnalyzeAccepted ''j1'' False),
      (2100, Fire 0 (ok (data ''processing'' (1/2)))),
      (3000, Unmount),
      (3500, Mount),
      (4100, Fire 0 (ok (data ''completed'' 1))),
      (5500, Fire 1 (ok (data ''completed'' 1)))]"

subsection \<open>The server side of a job\<close>

text \<open>
  Modelled from the spec: the server-side job record, the cancel endpoint and the
  checkpoint of a pipeline stage. The server is not among the sources; only the page
  that calls it is. The spec gives a job a status among queued, processing,
  waiting_for_worker, rendering, completed, failed and cancelled, and says of
  cancellation: ``a cancel request flips status toward cancelling and the pipeline stage
  is expected to observe this and stop at its next checkpoint''; of a stage: it ``updates
  the Job's stage/progress/detail fields before yielding control'', and ``failure of any
  stage marks the Job failed with a captured error message''.
\<close>

datatype job_status =
  Queued | Processing | Cancelling | WaitingForWorker | Rendering | Completed | Failed | Cancelled

text \<open>Modelled from the spec: the fields of the server's job record that cancellation reads or writes.\<close>

record server_job =
  sj_status :: job_status
  sj_progress :: rat
  sj_error :: string

text \<open>
  Modelled from the spec: what a stage has to report when it reaches its checkpoint
  (new progress, completion, or a failure with its message).
\<close>

datatype stage_result = StageContinues rat | StageCompletes | StageFails string

text \<open>
  Modelled from the spec: the cancel endpoint acknowledges a request for a job that is
  processing and flips its status to cancelling; the pair is the \<^verbatim>\<open>cancelled\<close> field of
  the answer and the job afterwards.
\<close>

definition request_cancel :: "server_job \<Rightarrow> bool \<times> server_job" where
  "request_cancel s =
     (if sj_status s = Processing then (True, s\<lparr>sj_status := Cancelling\<rparr>) else (False, s))"

text \<open>
  Modelled from the spec: at its checkpoint a stage observes a pending cancellation and
  stops; otherwise a processing job takes the result of the stage. A job in any other
  status is not touched.
\<close>

definition checkpoint :: "stage_result \<Rightarrow> server_job \<Rightarrow> server_job" where
  "checkpoint r s =
     (if sj_status s = Cancelling then s\<lparr>sj_status := Cancelled\<rparr>
      else if sj_status s = Processing then
        (case r of
           StageContinues p \<Rightarrow> s\<lparr>sj_progress := p\<rparr>
         | StageCompletes \<Rightarrow> s\<lparr>sj_status := Completed\<rparr>
         | StageFails e \<Rightarrow> s\<lparr>sj_status := Failed, sj_error := e\<rparr>)
      else s)"

text \<open>Modelled from the spec: the checkpoints of the stages that follow, in order.\<close>

fun checkpoints :: "stage_result list \<Rightarrow> server_job \<Rightarrow> server_job" where
  "checkpoints [] s = s"
| "checkpoints (r # rs) s = checkpoints rs (checkpoint r s)"

text \<open>Modelled from the spec: the status text of the status endpoint.\<close>

fun status_text :: "job_status \<Rightarrow> string" where
  "status_text Queued = ''queued''"
| "status_text Processing = ''processing''"
| "status_text Cancelling = ''cancelling''"
| "status_text WaitingForWorker = ''waiting_for_worker''"
| "status_text Rendering = ''rendering''"
| "status_text Completed = ''completed''"
| "status_text Failed = ''failed''"
| "status_text Cancelled = ''cancelled''"

text \<open>
  Modelled from the spec: the answer of the status endpoint for a job, as one firing of a
  poller receives it.
\<close>

definition job_response :: "server_job \<Rightarrow> tick_input" where
  "job_response s =
     \<lparr>status_res = Http 200 (Some \<lparr>d_status = status_text (sj_status s),
                                   d_progress = sj_progress s, d_stage = '''', d_detail = '''',
                                   d_error = sj_error s\<rparr>),
      random_lt = False, results_res = NetworkError\<rparr>"

section \<open>Properties\<close>

lemmas upd_defs = emit_def setCurrentJob_def update_job_def clearInterval_def
  setClipperPhase_def removeItem_def

lemmas input_defs = ok_def http_error_def network_error_def data_def

lemmas start_defs = page_load_def startSmartPolling_def startRenderPolling_def
  startPolling_def upload_accepted_def analyze_accepted_def

lemma run_not_polling: "\<not> polling c \<Longrightarrow> run tick c is = c"
  by (cases "is") simp_all

subsection \<open>The polling period\<close>

lemma smart_tick_timed: "tick_timed smart_tick"
  unfolding tick_timed_def
  by (simp add: smart_tick_def upd_defs Let_def status_fetch_times_def
           split: fetched.splits option.splits)

lemma render_tick_timed: "tick_timed render_tick"
  unfolding tick_timed_def
  by (simp add: render_tick_def upd_defs Let_def status_fetch_times_def
           split: fetched.splits option.splits)

lemma polling_tick_timed: "tick_timed polling_tick"
  unfolding tick_timed_def
  by (simp add: polling_tick_def polling_catch_def upd_defs Let_def status_fetch_times_def
           split: fetched.splits option.splits)

lemma fired_le: "fired tick c is \<le> length is"
  by (induction "is" arbitrary: c) simp_all

lemma fired_all: "polling (run tick c is) \<Longrightarrow> fired tick c is = length is"
  by (induction "is" arbitrary: c) (simp_all split: if_splits)

lemma fired_pos: "polling c \<Longrightarrow> is \<noteq> [] \<Longrightarrow> 0 < fired tick c is"
  by (cases "is") simp_all

lemma run_times:
  assumes "tick_timed tick"
  shows "status_fetch_times (trace (run tick c is)) =
           status_fetch_times (trace c) @
           map (\<lambda>k. clock c + interval_ms c * (k + 1)) [0..<fired tick c is]"
proof (induction "is" arbitrary: c)
  case Nil
  then show ?case by simp
next
  case (Cons i "is")
  show ?case
  proof (cases "polling c")
    case False
    then show ?thesis by simp
  next
    case True
    define d where "d = tick i (c\<lparr>clock := clock c + interval_ms c\<rparr>)"
    from assms have d: "clock d = clock c + interval_ms c" "interval_ms d = interval_ms c"
      "status_fetch_times (trace d) = status_fetch_times (trace c) @ [clock c + interval_ms c]"
      unfolding tick_timed_def d_def by simp_all
    have run: "run tick c (i # is) = run tick d is" "fired tick c (i # is) = Suc (fired tick d is)"
      using True by (simp_all add: d_def)
    have "map (\<lambda>k. clock c + interval_ms c * (k + 1)) [0..<Suc (fired tick d is)] =
          (clock c + interval_ms c) #
          map (\<lambda>k. clock d + interval_ms d * (k + 1)) [0..<fired tick d is]"
      by (simp add: upt_conv_Cons d map_Suc_upt[symmetric] del: upt_Suc)
    with Cons.IH[of d] d run show ?thesis by simp
  qed
qed

text \<open>
  Claim C8. Each of the three start functions registers an interval with a period of
  2000 ms. During a run, the callback fires once per period for as long as the interval
  is registered, at least once when a period elapses at all, and each firing issues one
  status fetch: the status fetches of the run are issued at the times \<open>t + 2000\<close>,
  \<open>t + 4000\<close>, ... after the start at time \<open>t\<close>, one for each firing.
\<close>

theorem poll_interval_2000:
  "(polling (startSmartPolling j c) \<and> interval_ms (startSmartPolling j c) = 2000 \<and>
    status_fetch_times (trace (run smart_tick (startSmartPolling j c) is)) =
      status_fetch_times (trace c) @
      map (\<lambda>k. clock c + 2000 * (k + 1)) [0..<fired smart_tick (startSmartPolling j c) is] \<and>
    fired smart_tick (startSmartPolling j c) is \<le> length is \<and>
    (is \<noteq> [] \<longrightarrow> 0 < fired smart_tick (startSmartPolling j c) is) \<and>
    (polling (run smart_tick (startSmartPolling j c) is) \<longrightarrow>
       fired smart_tick (startSmartPolling j c) is = length is)) \<and>
   (polling (startRenderPolling j c) \<and> interval_ms (startRenderPolling j c) = 2000 \<and>
    status_fetch_times (trace (run render_tick (startRenderPolling j c) is)) =
      status_fetch_times (trace c) @
      map (\<lambda>k. clock c + 2000 * (k + 1)) [0..<fired render_tick (startRenderPolling j c) is] \<and>
    fired render_tick (startRenderPolling j c) is \<le> length is \<and>
    (is \<noteq> [] \<longrightarrow> 0 < fired render_tick (startRenderPolling j c) is) \<and>
    (polling (run render_tick (startRenderPolling j c) is) \<longrightarrow>
       fired render_tick (startRenderPolling j c) is = length is)) \<and>
   (polling (startPolling j c) \<and> interval_ms (startPolling j c) = 2000 \<and>
    status_fetch_times (trace (run polling_tick (startPolling j c) is)) =
      status_fetch_times (trace c) @
      map (\<lambda>k. clock c + 2000 * (k + 1)) [0..<fired polling_tick (startPolling j c) is] \<and>
    fired polling_tick (startPolling j c) is \<le> length is \<and>
    (is \<noteq> [] \<longrightarrow> 0 < fired polling_tick (startPolling j c) is) \<and>
    (polling (run polling_tick (startPolling j c) is) \<longrightarrow>
       fired polling_tick (startPolling j c) is = length is))"
proof -
  have s: "polling (startSmartPolling j c)" "interval_ms (startSmartPolling j c) = 2000"
    "clock (startSmartPolling j c) = clock c" "trace (startSmartPolling j c) = trace c"
    by (simp_all add: startSmartPolling_def)
  have r: "polling (startRenderPolling j c)" "interval_ms (startRenderPolling j c) = 2000"
    "clock (startRenderPolling j c) = clock c" "trace (startRenderPolling j c) = trace c"
    by (simp_all add: startRenderPolling_def)
  have p: "polling (startPolling j c)" "interval_ms (startPolling j c) = 2000"
    "clock (startPolling j c) = clock c" "trace (startPolling j c) = trace c"
    by (simp_all add: startPolling_def)
  show ?thesis
    using run_times[OF smart_tick_timed, of "startSmartPolling j c" "is"]
      run_times[OF render_tick_timed, of "startRenderPolling j c" "is"]
      run_times[OF polling_tick_timed, of "startPolling j c" "is"]
      fired_pos[OF s(1), of "is" smart_tick] fired_pos[OF r(1), of "is" render_tick]
      fired_pos[OF p(1), of "is" polling_tick]
    by (simp add: s r p fired_le fired_all)
qed

theorem poll_interval_2000_witness:
  "[ok (data ''processing'' 0), ok (data ''processing'' (1/2))] \<noteq> [] \<and>
   polling (run smart_tick (startSmartPolling ''j1'' (page_load None 0))
             [ok (data ''processing'' 0), ok (data ''processing'' (1/2))]) \<and>
   status_fetch_times (trace (run smart_tick (startSmartPolling ''j1'' (page_load None 0))
             [ok (data ''processing'' 0), ok (data ''processing'' (1/2))])) = [2000, 4000] \<and>
   polling (run render_tick (startRenderPolling ''j1'' (page_load None 0))
             [ok (data ''processing'' 0), ok (data ''processing'' (1/2))]) \<and>
   status_fetch_times (trace (run render_tick (startRenderPolling ''j1'' (page_load None 0))
             [ok (data ''processing'' 0), ok (data ''processing'' (1/2))])) = [2000, 4000] \<and>
   polling (run polling_tick (startPolling ''j1'' (page_load None 0))
             [ok (data ''processing'' 0), ok (data ''processing'' (1/2))]) \<and>
   status_fetch_times (trace (run polling_tick (startPolling ''j1'' (page_load None 0))
             [ok (data ''processing'' 0), ok (data ''processing'' (1/2))])) = [2000, 4000]"
proof -
  let ?is = "[ok (data ''processing'' 0), ok (data ''processing'' (1/2))]"
  let ?c = "page_load None 0"
  have p: "polling (run smart_tick (startSmartPolling ''j1'' ?c) ?is)"
    "polling (run render_tick (startRenderPolling ''j1'' ?c) ?is)"
    "polling (run polling_tick (startPolling ''j1'' ?c) ?is)"
    by (simp_all add: smart_tick_def render_tick_def polling_tick_def upd_defs input_defs
          start_defs Let_def)
  have c: "status_fetch_times (trace ?c) = []" "clock ?c = 0"
    by (simp_all add: page_load_def status_fetch_times_def)
  have m: "map (\<lambda>k. 0 + 2000 * (k + 1)) [0..<length ?is] = [2000, 4000::nat]"
    by (simp add: upt_conv_Cons)
  from poll_interval_2000[of "''j1''" ?c ?is] p
  have "fired smart_tick (startSmartPolling ''j1'' ?c) ?is = length ?is"
    "fired render_tick (startRenderPolling ''j1'' ?c) ?is = length ?is"
    "fired polling_tick (startPolling ''j1'' ?c) ?is = length ?is"
    by blast+
  with poll_interval_2000[of "''j1''" ?c ?is]
  have "status_fetch_times (trace (run smart_tick (startSmartPolling ''j1'' ?c) ?is)) =
          [2000, 4000]"
    "status_fetch_times (trace (run render_tick (startRenderPolling ''j1'' ?c) ?is)) =
          [2000, 4000]"
    "status_fetch_times (trace (run polling_tick (startPolling ''j1'' ?c) ?is)) =
          [2000, 4000]"
    unfolding c by (simp_all only: m append_Nil)
  with p show ?thesis by simp
qed

subsection \<open>Completion\<close>

lemma smart_tick_completed:
  assumes "observes_completed smart_reported i"
  shows "\<not> polling (smart_tick i c)"
    and "requests (trace (smart_tick i c)) =
           requests (trace c) @
           [GetJobStatus (poll_job c), GetJobLogs (poll_job c), GetSmartResults (poll_job c)]"
  using assms
  by (auto simp: observes_completed_def smart_reported_def smart_tick_def upd_defs Let_def
        requests_def split: fetched.splits option.splits if_splits)

lemma render_tick_completed:
  assumes "observes_completed render_reported i"
  shows "\<not> polling (render_tick i c)"
    and "requests (trace (render_tick i c)) =
           requests (trace c) @
           [GetJobStatus (poll_job c), GetJobLogs (poll_job c), GetSmartResults (poll_job c)]"
  using assms
  by (auto simp: observes_completed_def render_reported_def render_tick_def upd_defs Let_def
        requests_def split: fetched.splits option.splits if_splits)

lemma polling_tick_completed:
  assumes "observes_completed polling_reported i"
  shows "\<not> polling (polling_tick i c)"
    and "requests (trace (polling_tick i c)) =
           requests (trace c) @ [GetJobStatus (poll_job c), GetJobResult (poll_job c)]"
  using assms
  by (auto simp: observes_completed_def polling_reported_def polling_tick_def upd_defs Let_def
        requests_def split: fetched.splits option.splits if_splits)

lemma run_stops:
  assumes "polling c" and "\<not> polling (tick i (c\<lparr>clock := clock c + interval_ms c\<rparr>))"
  shows "run tick c (i # rest) = tick i (c\<lparr>clock := clock c + interval_ms c\<rparr>)"
  using assms by (simp add: run_not_polling)

text \<open>
  One interval, whose callbacks do not overlap. When the status fetch of a firing observes
  \<open>completed\<close>, the run of that interval stops there: whatever its later firings would
  have received, the requests it issues from that firing on are the status fetch itself,
  the log fetch where the path has one, and a single fetch of the results; the interval
  is no longer registered.
\<close>

lemma one_interval_completed:
  "(polling c \<and> observes_completed smart_reported i \<longrightarrow>
      \<not> polling (run smart_tick c (i # rest)) \<and>
      requests (trace (run smart_tick c (i # rest))) =
        requests (trace c) @
        [GetJobStatus (poll_job c), GetJobLogs (poll_job c), GetSmartResults (poll_job c)]) \<and>
   (polling c \<and> observes_completed render_reported i \<longrightarrow>
      \<not> polling (run render_tick c (i # rest)) \<and>
      requests (trace (run render_tick c (i # rest))) =
        requests (trace c) @
        [GetJobStatus (poll_job c), GetJobLogs (poll_job c), GetSmartResults (poll_job c)]) \<and>
   (polling c \<and> observes_completed polling_reported i \<longrightarrow>
      \<not> polling (run polling_tick c (i # rest)) \<and>
      requests (trace (run polling_tick c (i # rest))) =
        requests (trace c) @ [GetJobStatus (poll_job c), GetJobResult (poll_job c)])"
proof -
  let ?c = "c\<lparr>clock := clock c + interval_ms c\<rparr>"
  have s: "run smart_tick c (i # rest) = smart_tick i ?c"
    if "polling c" "observes_completed smart_reported i"
    using that by (intro run_stops smart_tick_completed)
  have r: "run render_tick c (i # rest) = render_tick i ?c"
    if "polling c" "observes_completed render_reported i"
    using that by (intro run_stops render_tick_completed)
  have p: "run polling_tick c (i # rest) = polling_tick i ?c"
    if "polling c" "observes_completed polling_reported i"
    using that by (intro run_stops polling_tick_completed)
  show ?thesis
    using s r p smart_tick_completed[of i ?c] render_tick_completed[of i ?c]
      polling_tick_completed[of i ?c]
    by (simp add: requests_def)
qed

lemma one_interval_completed_example:
  "polling (upload_accepted ''j1'' (page_load None 0)) \<and>
   observes_completed polling_reported (ok (data ''completed'' 1)) \<and>
   \<not> polling (run polling_tick (upload_accepted ''j1'' (page_load None 0))
                [ok (data ''completed'' 1), ok (data ''processing'' 0)]) \<and>
   requests (trace (run polling_tick (upload_accepted ''j1'' (page_load None 0))
                [ok (data ''completed'' 1), ok (data ''processing'' 0)])) =
     [GetJobStatus ''j1'', GetJobResult ''j1'']"
proof -
  have a: "polling (upload_accepted ''j1'' (page_load None 0))"
    by (simp add: start_defs upd_defs)
  have b: "observes_completed polling_reported (ok (data ''completed'' 1))"
    by (simp add: observes_completed_def polling_reported_def input_defs)
  have c: "requests (trace (upload_accepted ''j1'' (page_load None 0))) = []"
    "poll_job (upload_accepted ''j1'' (page_load None 0)) = ''j1''"
    by (simp_all add: start_defs upd_defs requests_def)
  show ?thesis
    using a b c
      one_interval_completed[of "upload_accepted ''j1'' (page_load None 0)"
        "ok (data ''completed'' 1)" "[ok (data ''processing'' 0)]"]
    by simp
qed

subsection \<open>NotFound responses\<close>

lemma smart_tick_not_found:
  assumes "not_found i"
  shows "smart_tick i c =
           (if notFoundCount c + 1 \<ge> 3
            then setClipperPhase ''input''
                   (update_job job_lost_smart
                      (clearInterval
                         ((emit (GetJobStatus (poll_job c)) c)\<lparr>notFoundCount := notFoundCount c + 1\<rparr>)))
            else (emit (GetJobStatus (poll_job c)) c)\<lparr>notFoundCount := notFoundCount c + 1\<rparr>)"
  using assms
  by (simp add: not_found_def smart_tick_def Let_def emit_def split: fetched.splits)

lemma polling_tick_not_found:
  assumes "not_found i"
  shows "polling_tick i c =
           (if pollErrorCount c + 1 \<ge> 2
            then setCurrentJob (Some (job_lost (poll_job c)))
                   (clearInterval
                      ((emit (GetJobStatus (poll_job c)) c)\<lparr>pollErrorCount := pollErrorCount c + 1\<rparr>))
            else (emit (GetJobStatus (poll_job c)) c)\<lparr>pollErrorCount := pollErrorCount c + 1\<rparr>)"
  using assms
  by (simp add: not_found_def polling_tick_def Let_def emit_def split: fetched.splits)

text \<open>
  Claim C3, as amended. \<^verbatim>\<open>startSmartPolling\<close>: counted from a zero counter (at the start
  and after every response other than 404), the poller is still registered after one and
  after two consecutive 404 responses and gives up on the third, showing the job as failed
  with the job-lost message. \<^verbatim>\<open>startPolling\<close>: counted from a zero error counter, the poller
  is still registered after one 404 response and gives up on the second, showing the
  Job Lost failure.
\<close>

theorem not_found_gives_up:
  "(polling c \<and> notFoundCount c = 0 \<and> not_found i1 \<and> not_found i2 \<and> not_found i3 \<longrightarrow>
      polling (run smart_tick c [i1]) \<and>
      polling (run smart_tick c [i1, i2]) \<and>
      \<not> polling (run smart_tick c (i1 # i2 # i3 # rest)) \<and>
      (\<exists>j. currentJob (run smart_tick c (i1 # i2 # i3 # rest)) = Some j \<and>
           status j = ''failed'' \<and>
           error j = ''Job lost - server may have restarted. Please try again.'')) \<and>
   (polling c \<and> pollErrorCount c = 0 \<and> not_found i1 \<and> not_found i2 \<longrightarrow>
      polling (run polling_tick c [i1]) \<and>
      \<not> polling (run polling_tick c (i1 # i2 # rest)) \<and>
      currentJob (run polling_tick c (i1 # i2 # rest)) = Some (job_lost (poll_job c)))"
  by (simp add: smart_tick_not_found polling_tick_not_found upd_defs run_not_polling
        job_lost_smart_def)

theorem not_found_gives_up_witness:
  "polling (analyze_accepted ''j1'' False (page_load None 0)) \<and>
   notFoundCount (analyze_accepted ''j1'' False (page_load None 0)) = 0 \<and>
   not_found (http_error 404) \<and>
   polling (run smart_tick (analyze_accepted ''j1'' False (page_load None 0))
              [http_error 404, http_error 404]) \<and>
   \<not> polling (run smart_tick (analyze_accepted ''j1'' False (page_load None 0))
              [http_error 404, http_error 404, http_error 404, ok (data ''processing'' 0)])"
proof -
  have a: "polling (analyze_accepted ''j1'' False (page_load None 0))"
    "notFoundCount (analyze_accepted ''j1'' False (page_load None 0)) = 0"
    by (simp_all add: start_defs upd_defs)
  have b: "not_found (http_error 404)"
    by (simp add: not_found_def http_error_def)
  from a b
    not_found_gives_up[of "analyze_accepted ''j1'' False (page_load None 0)"
      "http_error 404" "http_error 404" "http_error 404" "[ok (data ''processing'' 0)]"]
  show ?thesis by blast
qed

text \<open>
  Claim C3 as stated fails on \<^verbatim>\<open>startPolling\<close>: after an upload, two 404 responses are
  enough for the poller to give up with Job Lost.
\<close>

theorem not_found_three_counterexample:
  "\<not> polling (run polling_tick (upload_accepted ''j1'' (page_load None 0))
               [http_error 404, http_error 404]) \<and>
   map_option stage (currentJob (run polling_tick (upload_accepted ''j1'' (page_load None 0))
               [http_error 404, http_error 404])) = Some ''Job Lost''"
  by (simp add: polling_tick_def upd_defs start_defs input_defs Let_def job_lost_def)

subsection \<open>Counting errors in startPolling\<close>

lemma run_append: "run tick c (is @ rest) = run tick (run tick c is) rest"
  by (induction "is" arbitrary: c) (simp_all add: run_not_polling)

lemma polling_tick_server_error:
  assumes "server_error i"
  shows "polling_tick i c =
           (if pollErrorCount c + 1 \<ge> 3
            then setCurrentJob (Some (server_crashed (poll_job c)))
                   (clearInterval
                      ((emit (GetJobStatus (poll_job c)) c)\<lparr>pollErrorCount := pollErrorCount c + 1\<rparr>))
            else (emit (GetJobStatus (poll_job c)) c)\<lparr>pollErrorCount := pollErrorCount c + 1\<rparr>)"
  using assms
  by (auto simp: server_error_def polling_tick_def Let_def emit_def split: fetched.splits)

lemma polling_tick_network_error:
  assumes "status_res i = NetworkError"
  shows "polling_tick i c =
           (if pollErrorCount c + 1 \<ge> 5
            then setCurrentJob (Some (connection_lost (poll_job c)))
                   (clearInterval
                      ((emit (GetJobStatus (poll_job c)) c)\<lparr>pollErrorCount := pollErrorCount c + 1\<rparr>))
            else (emit (GetJobStatus (poll_job c)) c)\<lparr>pollErrorCount := pollErrorCount c + 1\<rparr>)"
  using assms
  by (simp add: polling_tick_def polling_catch_def Let_def emit_def)

lemma polling_tick_transient:
  assumes "transient i"
  shows "pollErrorCount (polling_tick i c) = pollErrorCount c + 1"
    and "poll_job (polling_tick i c) = poll_job c"
    and "polling (polling_tick i c) \<Longrightarrow> pollErrorCount c + 1 < 5"
    and "polling c \<Longrightarrow> \<not> polling (polling_tick i c) \<Longrightarrow> gave_up (polling_tick i c)"
  using assms unfolding transient_def
  by (auto simp: polling_tick_server_error polling_tick_network_error polling_tick_not_found
        upd_defs gave_up_def split: if_splits)

lemma run_transient:
  assumes "list_all transient is" and "polling c"
  shows "if polling (run polling_tick c is)
         then pollErrorCount (run polling_tick c is) = pollErrorCount c + length is \<and>
              pollErrorCount c + length is < 5 \<or> is = []
         else gave_up (run polling_tick c is)"
  using assms
proof (induction "is" arbitrary: c)
  case Nil
  then show ?case by simp
next
  case (Cons i "is")
  let ?c = "polling_tick i (c\<lparr>clock := clock c + interval_ms c\<rparr>)"
  from Cons.prems have i: "transient i" and rest: "list_all transient is" by simp_all
  have run: "run polling_tick c (i # is) = run polling_tick ?c is"
    using Cons.prems by simp
  show ?case
  proof (cases "polling ?c")
    case False
    then show ?thesis
      using polling_tick_transient(4)[OF i, of "c\<lparr>clock := clock c + interval_ms c\<rparr>"] Cons.prems
      by (simp add: run_not_polling)
  next
    case True
    from Cons.IH[OF rest True] polling_tick_transient(1,3)[OF i, of "c\<lparr>clock := clock c + interval_ms c\<rparr>"] True
    show ?thesis unfolding run by (auto split: if_splits)
  qed
qed

lemma run_kind:
  assumes step: "\<And>i c. kind i \<Longrightarrow> polling_tick i c =
           (if pollErrorCount c + 1 \<ge> k
            then setCurrentJob (Some (fail (poll_job c)))
                   (clearInterval
                      ((emit (GetJobStatus (poll_job c)) c)\<lparr>pollErrorCount := pollErrorCount c + 1\<rparr>))
            else (emit (GetJobStatus (poll_job c)) c)\<lparr>pollErrorCount := pollErrorCount c + 1\<rparr>)"
    and "list_all kind is" and "polling c" and "pollErrorCount c < k"
  shows "polling (run polling_tick c is) \<longleftrightarrow> pollErrorCount c + length is < k"
  using assms(2-)
proof (induction "is" arbitrary: c)
  case Nil
  then show ?case by simp
next
  case (Cons i "is")
  let ?c = "polling_tick i (c\<lparr>clock := clock c + interval_ms c\<rparr>)"
  from Cons.prems have i: "kind i" and rest: "list_all kind is" by simp_all
  show ?case
  proof (cases "pollErrorCount c + 1 \<ge> k")
    case True
    then have "\<not> polling ?c" by (simp add: step[OF i] upd_defs)
    with True Cons.prems show ?thesis by (simp add: run_not_polling)
  next
    case False
    then have "polling ?c" "pollErrorCount ?c = pollErrorCount c + 1"
      using Cons.prems by (simp_all add: step[OF i] upd_defs)
    with Cons.IH[OF rest, of ?c] False Cons.prems show ?thesis by simp
  qed
qed

lemma smart_tick_not_found_step:
  assumes "not_found i"
  shows "notFoundCount (smart_tick i c) = notFoundCount c + 1"
    and "polling (smart_tick i c) \<Longrightarrow> notFoundCount c + 1 < 3"
    and "polling c \<Longrightarrow> \<not> polling (smart_tick i c) \<Longrightarrow> smart_gave_up (smart_tick i c)"
  using assms
  by (auto simp: smart_tick_not_found upd_defs smart_gave_up_def job_lost_smart_def
        split: if_splits)

lemma run_smart_not_found:
  assumes "list_all not_found is" and "polling c"
  shows "if polling (run smart_tick c is)
         then notFoundCount c + length is < 3 \<or> is = []
         else smart_gave_up (run smart_tick c is)"
  using assms
proof (induction "is" arbitrary: c)
  case Nil
  then show ?case by simp
next
  case (Cons i "is")
  let ?d = "c\<lparr>clock := clock c + interval_ms c\<rparr>"
  let ?c = "smart_tick i ?d"
  from Cons.prems have i: "not_found i" and rest: "list_all not_found is" by simp_all
  have run: "run smart_tick c (i # is) = run smart_tick ?c is"
    using Cons.prems by simp
  show ?case
  proof (cases "polling ?c")
    case False
    from Cons.prems have "polling ?d" by simp
    from smart_tick_not_found_step(3)[OF i this False] False
    show ?thesis unfolding run by (simp add: run_not_polling)
  next
    case True
    from Cons.IH[OF rest True] smart_tick_not_found_step(1,2)[OF i, of ?d] True
    show ?thesis unfolding run by (auto split: if_splits)
  qed
qed

text \<open>
  Claim C4, as amended. \<^verbatim>\<open>startPolling\<close> counts 500/502/503 responses, 404 responses and
  rejected fetches in one counter, which only a response of another kind resets. Any five
  consecutive such errors end the polling with one of its three failed jobs; counted
  from zero, it is abandoned on the 2nd consecutive 404, on the 3rd consecutive
  500/502/503 and on the 5th consecutive rejected fetch, and not earlier.
  \<^verbatim>\<open>startSmartPolling\<close> is abandoned, with the job marked failed, after three consecutive
  404 responses at the latest.
\<close>

theorem transient_errors_bounded:
  "(polling c \<and> list_all transient is \<and> 5 \<le> length is \<longrightarrow>
      gave_up (run polling_tick c (is @ rest))) \<and>
   (polling c \<and> pollErrorCount c = 0 \<and> list_all not_found is \<longrightarrow>
      (polling (run polling_tick c is) \<longleftrightarrow> length is < 2)) \<and>
   (polling c \<and> pollErrorCount c = 0 \<and> list_all server_error is \<longrightarrow>
      (polling (run polling_tick c is) \<longleftrightarrow> length is < 3)) \<and>
   (polling c \<and> pollErrorCount c = 0 \<and> list_all (\<lambda>i. status_res i = NetworkError) is \<longrightarrow>
      (polling (run polling_tick c is) \<longleftrightarrow> length is < 5)) \<and>
   (polling c \<and> list_all not_found is \<and> 3 \<le> length is \<longrightarrow>
      smart_gave_up (run smart_tick c (is @ rest)))"
proof (intro conjI impI)
  assume a: "polling c \<and> list_all transient is \<and> 5 \<le> length is"
  with run_transient[of "is" c] have "gave_up (run polling_tick c is)"
    by (auto split: if_splits)
  then show "gave_up (run polling_tick c (is @ rest))"
    by (simp add: run_append run_not_polling gave_up_def)
next
  assume "polling c \<and> pollErrorCount c = 0 \<and> list_all not_found is"
  then show "polling (run polling_tick c is) \<longleftrightarrow> length is < 2"
    using run_kind[of not_found 2 job_lost "is" c] by (simp add: polling_tick_not_found)
next
  assume "polling c \<and> pollErrorCount c = 0 \<and> list_all server_error is"
  then show "polling (run polling_tick c is) \<longleftrightarrow> length is < 3"
    using run_kind[of server_error 3 server_crashed "is" c]
    by (simp add: polling_tick_server_error)
next
  assume "polling c \<and> pollErrorCount c = 0 \<and> list_all (\<lambda>i. status_res i = NetworkError) is"
  then show "polling (run polling_tick c is) \<longleftrightarrow> length is < 5"
    using run_kind[of "\<lambda>i. status_res i = NetworkError" 5 connection_lost "is" c]
    by (simp add: polling_tick_network_error)
next
  assume a: "polling c \<and> list_all not_found is \<and> 3 \<le> length is"
  with run_smart_not_found[of "is" c] have "smart_gave_up (run smart_tick c is)"
    by (auto split: if_splits)
  then show "smart_gave_up (run smart_tick c (is @ rest))"
    by (simp add: run_append run_not_polling smart_gave_up_def)
qed

theorem transient_errors_bounded_witness:
  "polling (upload_accepted ''j1'' (page_load None 0)) \<and>
   list_all transient
     [network_error, http_error 503, network_error, network_error, network_error] \<and>
   gave_up (run polling_tick (upload_accepted ''j1'' (page_load None 0))
              ([network_error, http_error 503, network_error, network_error, network_error] @
               [ok (data ''processing'' 0)]))"
proof -
  have a: "polling (upload_accepted ''j1'' (page_load None 0))"
    by (simp add: start_defs upd_defs)
  have b: "list_all transient
             [network_error, http_error 503, network_error, network_error, network_error]"
    by (simp add: transient_def server_error_def input_defs)
  have c: "5 \<le> length
             [network_error, http_error 503, network_error, network_error, network_error]"
    by simp
  from a b c
    transient_errors_bounded[of "upload_accepted ''j1'' (page_load None 0)"
      "[network_error, http_error 503, network_error, network_error, network_error]"
      "[ok (data ''processing'' 0)]"]
  show ?thesis by blast
qed

text \<open>
  Claim C4 as stated fails: after an upload a 503 followed by a 404 ends the polling, two
  errors and not three; and the poller of \<^verbatim>\<open>startRenderPolling\<close> is still registered after
  six rejected fetches in a row.
\<close>

theorem threshold_range_counterexample:
  "\<not> polling (run polling_tick (upload_accepted ''j1'' (page_load None 0))
               [http_error 503, http_error 404]) \<and>
   polling (run render_tick (startRenderPolling ''j1'' (page_load None 0))
               [network_error, network_error, network_error, network_error, network_error,
                network_error])"
  by (simp add: polling_tick_def render_tick_def upd_defs start_defs input_defs Let_def)

subsection \<open>Server errors outside startPolling\<close>

lemma smart_tick_unparsed:
  assumes "status_res i = Http code None" and "code \<noteq> 404"
  shows "smart_tick i c = (emit (GetJobStatus (poll_job c)) c)\<lparr>notFoundCount := 0\<rparr>"
  using assms by (simp add: smart_tick_def Let_def emit_def)

lemma render_tick_unparsed:
  assumes "status_res i = Http code None"
  shows "render_tick i c = emit (GetJobStatus (poll_job c)) c"
  using assms by (simp add: render_tick_def Let_def emit_def)

text \<open>
  A 500, 502 or 503 response whose body is not JSON changes nothing in
  \<^verbatim>\<open>startSmartPolling\<close> and \<^verbatim>\<open>startRenderPolling\<close>, however many of them arrive.
\<close>

lemma smart_ignores_server_errors:
  assumes "list_all (\<lambda>i. server_error i \<and> (\<exists>code. status_res i = Http code None)) is"
    and "polling c"
  shows "polling (run smart_tick c is) \<and> currentJob (run smart_tick c is) = currentJob c"
  using assms
proof (induction "is" arbitrary: c)
  case Nil
  then show ?case by simp
next
  case (Cons i "is")
  let ?d = "c\<lparr>clock := clock c + interval_ms c\<rparr>"
  from Cons.prems obtain code where code: "status_res i = Http code None" "code \<noteq> 404"
    by (auto simp: server_error_def)
  have t: "polling (smart_tick i ?d)" "currentJob (smart_tick i ?d) = currentJob c"
    using Cons.prems by (simp_all add: smart_tick_unparsed[OF code] emit_def)
  from Cons.prems have "list_all (\<lambda>i. server_error i \<and> (\<exists>code. status_res i = Http code None)) is"
    by simp
  from Cons.IH[OF this t(1)] t(2) Cons.prems show ?case by simp
qed

lemma render_ignores_server_errors:
  assumes "list_all (\<lambda>i. server_error i \<and> (\<exists>code. status_res i = Http code None)) is"
    and "polling c"
  shows "polling (run render_tick c is) \<and> currentJob (run render_tick c is) = currentJob c"
  using assms
proof (induction "is" arbitrary: c)
  case Nil
  then show ?case by simp
next
  case (Cons i "is")
  let ?d = "c\<lparr>clock := clock c + interval_ms c\<rparr>"
  from Cons.prems obtain code where code: "status_res i = Http code None"
    by auto
  have t: "polling (render_tick i ?d)" "currentJob (render_tick i ?d) = currentJob c"
    using Cons.prems by (simp_all add: render_tick_unparsed[OF code] emit_def)
  from Cons.prems have "list_all (\<lambda>i. server_error i \<and> (\<exists>code. status_res i = Http code None)) is"
    by simp
  from Cons.IH[OF this t(1)] t(2) Cons.prems show ?case by simp
qed

text \<open>
  Claim C5 at its failing input. Four consecutive 503 responses: the poller of
  \<^verbatim>\<open>startSmartPolling\<close> is still registered and the job is still shown as processing, and
  the poller of \<^verbatim>\<open>startRenderPolling\<close> is still registered as well; only \<^verbatim>\<open>startPolling\<close>
  stops on the third.
\<close>

theorem server_errors_not_counted:
  "polling (run smart_tick (analyze_accepted ''j1'' False (page_load None 0))
             [http_error 503, http_error 503, http_error 503, http_error 503]) \<and>
   map_option status
     (currentJob (run smart_tick (analyze_accepted ''j1'' False (page_load None 0))
             [http_error 503, http_error 503, http_error 503, http_error 503])) =
     Some ''processing'' \<and>
   polling (run render_tick (startRenderPolling ''j1'' (page_load None 0))
             [http_error 503, http_error 503, http_error 503, http_error 503]) \<and>
   \<not> polling (run polling_tick (upload_accepted ''j1'' (page_load None 0))
             [http_error 503, http_error 503, http_error 503]) \<and>
   map_option stage
     (currentJob (run polling_tick (upload_accepted ''j1'' (page_load None 0))
             [http_error 503, http_error 503, http_error 503, http_error 503])) =
     Some ''Server Crashed''"
  by (simp add: smart_tick_def render_tick_def polling_tick_def upd_defs start_defs input_defs
        Let_def server_crashed_def)

subsection \<open>Resetting the counters\<close>

lemma run_smart_kind:
  assumes "list_all not_found is" and "polling c" and "notFoundCount c < 3"
  shows "polling (run smart_tick c is) \<longleftrightarrow> notFoundCount c + length is < 3"
  using assms
proof (induction "is" arbitrary: c)
  case Nil
  then show ?case by simp
next
  case (Cons i "is")
  let ?c = "smart_tick i (c\<lparr>clock := clock c + interval_ms c\<rparr>)"
  from Cons.prems have i: "not_found i" and rest: "list_all not_found is" by simp_all
  show ?case
  proof (cases "notFoundCount c + 1 \<ge> 3")
    case True
    then have "\<not> polling ?c" by (simp add: smart_tick_not_found[OF i] upd_defs)
    with True Cons.prems show ?thesis by (simp add: run_not_polling)
  next
    case False
    then have "polling ?c" "notFoundCount ?c = notFoundCount c + 1"
      using Cons.prems by (simp_all add: smart_tick_not_found[OF i] upd_defs)
    with Cons.IH[OF rest, of ?c] False Cons.prems show ?thesis by simp
  qed
qed

lemma smart_tick_success:
  assumes "smart_reported i = Some d" and "\<not> smart_stop (d_status d)"
  shows "polling (smart_tick i c) = polling c" and "notFoundCount (smart_tick i c) = 0"
  using assms
  by (auto simp: smart_reported_def smart_stop_def smart_tick_def upd_defs Let_def
        split: fetched.splits if_splits)

lemma polling_tick_success:
  assumes "polling_reported i = Some d" and "\<not> polling_stop (d_status d)"
  shows "polling (polling_tick i c) = polling c" and "pollErrorCount (polling_tick i c) = 0"
  using assms
  by (auto simp: polling_reported_def polling_stop_def polling_tick_def upd_defs Let_def
        split: fetched.splits if_splits)

lemma polling_tick_reset:
  assumes "polling_reported i = Some d"
  shows "pollErrorCount (polling_tick i c) = 0"
  using assms
  by (auto simp: polling_reported_def polling_tick_def upd_defs Let_def
        split: fetched.splits if_splits)

lemma smart_tick_reset:
  assumes "status_res i = Http code body" and "code \<noteq> 404"
  shows "notFoundCount (smart_tick i c) = 0"
  using assms
  by (auto simp: smart_tick_def upd_defs Let_def split: option.splits)

text \<open>
  Claim C9. In \<^verbatim>\<open>startSmartPolling\<close> every response other than a 404 sets \<open>notFoundCount\<close>
  to zero, and in \<^verbatim>\<open>startPolling\<close> every status fetch that yields a job sets the error
  counter to zero. So, whatever the counter was before a successful fetch that leaves the
  poller running, the errors after it are counted from zero again: the poller is
  abandoned exactly when the full number of consecutive errors follows (3 NotFound in the
  smart path; 2 NotFound, 3 server errors or 5 rejected fetches in the upload path).
\<close>

theorem success_resets_error_count:
  "(status_res i = Http code body \<and> code \<noteq> 404 \<longrightarrow> notFoundCount (smart_tick i c) = 0) \<and>
   (polling_reported i = Some d \<longrightarrow> pollErrorCount (polling_tick i c) = 0) \<and>
   (polling c \<and> smart_reported i = Some d \<and> \<not> smart_stop (d_status d) \<and>
    list_all not_found es \<longrightarrow>
      (polling (run smart_tick c (i # es)) \<longleftrightarrow> length es < 3)) \<and>
   (polling c \<and> polling_reported i = Some d \<and> \<not> polling_stop (d_status d) \<and>
    list_all not_found es \<longrightarrow>
      (polling (run polling_tick c (i # es)) \<longleftrightarrow> length es < 2)) \<and>
   (polling c \<and> polling_reported i = Some d \<and> \<not> polling_stop (d_status d) \<and>
    list_all server_error es \<longrightarrow>
      (polling (run polling_tick c (i # es)) \<longleftrightarrow> length es < 3)) \<and>
   (polling c \<and> polling_reported i = Some d \<and> \<not> polling_stop (d_status d) \<and>
    list_all (\<lambda>i. status_res i = NetworkError) es \<longrightarrow>
      (polling (run polling_tick c (i # es)) \<longleftrightarrow> length es < 5))"
proof -
  let ?d = "c\<lparr>clock := clock c + interval_ms c\<rparr>"
  have s: "polling (run smart_tick c (i # es)) \<longleftrightarrow> length es < 3"
    if "polling c" "smart_reported i = Some d" "\<not> smart_stop (d_status d)"
       "list_all not_found es"
    using that run_smart_kind[of es "smart_tick i ?d"] smart_tick_success[of i d ?d]
    by simp
  have p: "polling (run polling_tick c (i # es)) \<longleftrightarrow> length es < k"
    if "polling c" "polling_reported i = Some d" "\<not> polling_stop (d_status d)"
       "list_all kind es" "0 < k"
       "\<And>i c. kind i \<Longrightarrow> polling_tick i c =
           (if pollErrorCount c + 1 \<ge> k
            then setCurrentJob (Some (fail (poll_job c)))
                   (clearInterval
                      ((emit (GetJobStatus (poll_job c)) c)\<lparr>pollErrorCount := pollErrorCount c + 1\<rparr>))
            else (emit (GetJobStatus (poll_job c)) c)\<lparr>pollErrorCount := pollErrorCount c + 1\<rparr>)"
    for kind k fail
    using that(1-5) run_kind[of kind k fail es "polling_tick i ?d", OF that(6)]
      polling_tick_success[of i d ?d]
    by simp
  show ?thesis
    using s p[of not_found 2 job_lost, OF _ _ _ _ _ polling_tick_not_found]
      p[of server_error 3 server_crashed, OF _ _ _ _ _ polling_tick_server_error]
      p[of "\<lambda>i. status_res i = NetworkError" 5 connection_lost,
        OF _ _ _ _ _ polling_tick_network_error]
      smart_tick_reset[of i code body c] polling_tick_reset[of i d c]
    by simp
qed

theorem success_resets_error_count_witness:
  "polling (run smart_tick (analyze_accepted ''j1'' False (page_load None 0))
             [http_error 404, http_error 404]) \<and>
   notFoundCount (run smart_tick (analyze_accepted ''j1'' False (page_load None 0))
             [http_error 404, http_error 404]) = 2 \<and>
   smart_reported (ok (data ''processing'' 0)) = Some (data ''processing'' 0) \<and>
   \<not> smart_stop (d_status (data ''processing'' 0)) \<and>
   list_all not_found [http_error 404, http_error 404] \<and>
   polling (run smart_tick
             (run smart_tick (analyze_accepted ''j1'' False (page_load None 0))
                [http_error 404, http_error 404])
             (ok (data ''processing'' 0) # [http_error 404, http_error 404]))"
proof -
  let ?c = "run smart_tick (analyze_accepted ''j1'' False (page_load None 0))
             [http_error 404, http_error 404]"
  have a: "polling ?c" "notFoundCount ?c = 2"
    by (simp_all add: smart_tick_def upd_defs start_defs input_defs Let_def)
  have b: "smart_reported (ok (data ''processing'' 0)) = Some (data ''processing'' 0)"
    "\<not> smart_stop (d_status (data ''processing'' 0))"
    "list_all not_found [http_error 404, http_error 404]"
    by (simp_all add: smart_reported_def smart_stop_def not_found_def input_defs)
  have c: "length [http_error 404, http_error 404] < 3" by simp
  from a b c
    success_resets_error_count[of "ok (data ''processing'' 0)" 200
      "Some (data ''processing'' 0)" ?c "data ''processing'' 0"
      "[http_error 404, http_error 404]"]
  show ?thesis by blast
qed

subsection \<open>Persisting and resuming\<close>

text \<open>
  Claim C10. The persist effect writes the storage only when the current job has status
  \<open>processing\<close>; no callback, and neither \<^verbatim>\<open>cancelJob\<close> nor the resume effect, writes a
  record. On page load, where no job is current and no interval is registered, polling
  is started exactly when the stored record is less than 30 minutes (1800000 ms) old; a
  record that is 30 minutes old or older is removed and nothing else changes: no request
  is issued and no interval is registered.
\<close>

theorem persist_and_resume:
  "(saved_job (persist_effect c) \<noteq> saved_job c \<longrightarrow>
      (\<exists>j. currentJob c = Some j \<and> status j = ''processing'')) \<and>
   (currentJob c = Some j \<and> job_id j \<noteq> [] \<and> status j = ''processing'' \<longrightarrow>
      saved_job (persist_effect c) = Some (SavedJob (job_id j) (Some (int (clock c))))) \<and>
   saved_job (smart_tick i c) \<in> {saved_job c, None} \<and>
   saved_job (render_tick i c) \<in> {saved_job c, None} \<and>
   saved_job (polling_tick i c) \<in> {saved_job c, None} \<and>
   saved_job (cancelJob r c) \<in> {saved_job c, None} \<and>
   saved_job (resume_effect c) \<in> {saved_job c, None} \<and>
   (currentJob c = None \<and> \<not> polling c \<longrightarrow>
      (polling (resume_effect c) \<longleftrightarrow>
         (\<exists>jid t. saved_job c = Some (SavedJob jid (Some t)) \<and> int (clock c) - t < 1800000))) \<and>
   (currentJob c = None \<and> saved_job c = Some (SavedJob jid (Some t)) \<and>
    1800000 \<le> int (clock c) - t \<longrightarrow>
      resume_effect c = c\<lparr>saved_job := None\<rparr>)"
proof (intro conjI)
  show "saved_job (persist_effect c) \<noteq> saved_job c \<longrightarrow>
          (\<exists>j. currentJob c = Some j \<and> status j = ''processing'')"
    by (auto simp: persist_effect_def split: option.splits if_splits)
  show "currentJob c = Some j \<and> job_id j \<noteq> [] \<and> status j = ''processing'' \<longrightarrow>
          saved_job (persist_effect c) = Some (SavedJob (job_id j) (Some (int (clock c))))"
    by (simp add: persist_effect_def)
  show "saved_job (smart_tick i c) \<in> {saved_job c, None}"
    by (simp add: smart_tick_def upd_defs Let_def split: fetched.splits option.splits)
  show "saved_job (render_tick i c) \<in> {saved_job c, None}"
    by (simp add: render_tick_def upd_defs Let_def split: fetched.splits option.splits)
  show "saved_job (polling_tick i c) \<in> {saved_job c, None}"
    by (simp add: polling_tick_def polling_catch_def upd_defs Let_def
          split: fetched.splits option.splits)
  show "saved_job (cancelJob r c) \<in> {saved_job c, None}"
    by (simp add: cancelJob_def upd_defs Let_def split: fetched.splits option.splits)
  show "saved_job (resume_effect c) \<in> {saved_job c, None}"
    by (simp add: resume_effect_def startSmartPolling_def upd_defs
          split: stored.splits option.splits)
  show "currentJob c = None \<and> \<not> polling c \<longrightarrow>
          (polling (resume_effect c) \<longleftrightarrow>
             (\<exists>jid t. saved_job c = Some (SavedJob jid (Some t)) \<and>
                      int (clock c) - t < 1800000))"
    by (auto simp: resume_effect_def startSmartPolling_def upd_defs
          split: stored.splits option.splits)
  show "currentJob c = None \<and> saved_job c = Some (SavedJob jid (Some t)) \<and>
          1800000 \<le> int (clock c) - t \<longrightarrow> resume_effect c = c\<lparr>saved_job := None\<rparr>"
    by (simp add: resume_effect_def removeItem_def)
qed

theorem persist_and_resume_witness:
  "currentJob (page_load (Some (SavedJob ''j1'' (Some 0))) 1800000) = None \<and>
   saved_job (page_load (Some (SavedJob ''j1'' (Some 0))) 1800000) =
     Some (SavedJob ''j1'' (Some 0)) \<and>
   (1800000::int) \<le> int (clock (page_load (Some (SavedJob ''j1'' (Some 0))) 1800000)) - 0 \<and>
   resume_effect (page_load (Some (SavedJob ''j1'' (Some 0))) 1800000) =
     (page_load (Some (SavedJob ''j1'' (Some 0))) 1800000)\<lparr>saved_job := None\<rparr> \<and>
   polling (resume_effect (page_load (Some (SavedJob ''j1'' (Some 0))) 1799999))"
proof -
  let ?c = "page_load (Some (SavedJob ''j1'' (Some 0))) 1800000"
  let ?e = "page_load (Some (SavedJob ''j1'' (Some 0))) 1799999"
  have a: "currentJob ?c = None" "saved_job ?c = Some (SavedJob ''j1'' (Some 0))"
    "(1800000::int) \<le> int (clock ?c) - 0"
    by (simp_all add: page_load_def)
  have b: "currentJob ?e = None" "\<not> polling ?e"
    "\<exists>jid t. saved_job ?e = Some (SavedJob jid (Some t)) \<and> int (clock ?e) - t < 1800000"
    by (simp_all add: page_load_def)
  from a persist_and_resume[of ?c _ _ _ "''j1''" 0]
  have 1: "resume_effect ?c = ?c\<lparr>saved_job := None\<rparr>" by blast
  from b persist_and_resume[of ?e]
  have 2: "polling (resume_effect ?e)" by blast
  from a 1 2 show ?thesis by blast
qed

subsection \<open>Progress shown while processing\<close>

lemma processing_progress_emit:
  "processing_progress (trace (emit e c)) =
     processing_progress (trace c) @
     map progress (filter (\<lambda>j. status j = ''processing'') (recorded e))"
  by (simp add: processing_progress_def job_history_def emit_def)

lemma smart_tick_mirrors: "mirrors smart_tick smart_reported"
  unfolding mirrors_def
  by (auto simp: smart_tick_def smart_reported_def reported_progress_def Let_def
        processing_progress_def job_history_def upd_defs copy_status_def job_lost_smart_def
        split: fetched.splits option.splits)

lemma render_tick_mirrors: "mirrors render_tick render_reported"
  unfolding mirrors_def
  by (auto simp: render_tick_def render_reported_def reported_progress_def Let_def
        processing_progress_def job_history_def upd_defs copy_status_def
        split: fetched.splits option.splits)

lemma polling_tick_mirrors: "mirrors polling_tick polling_reported"
  unfolding mirrors_def
  by (auto simp: polling_tick_def polling_catch_def polling_reported_def reported_progress_def
        Let_def processing_progress_def job_history_def upd_defs server_crashed_def job_lost_def
        connection_lost_def
        split: fetched.splits option.splits)

lemma server_progress_Cons:
  "server_progress rep (i # is) = reported_progress rep i @ server_progress rep is"
  by (simp add: server_progress_def reported_progress_def List.map_filter_simps
        split: option.splits)

lemma server_progress_Nil: "server_progress rep [] = []"
  by (simp add: server_progress_def List.map_filter_simps)

lemma server_progress_append:
  "server_progress rep (xs @ ys) = server_progress rep xs @ server_progress rep ys"
  by (induction xs) (simp_all add: server_progress_Cons server_progress_Nil)

lemma run_mirrors:
  assumes "mirrors tick rep"
  shows "processing_progress (trace (run tick c is)) =
           processing_progress (trace c) @ server_progress rep (take (fired tick c is) is)"
proof (induction "is" arbitrary: c)
  case Nil
  then show ?case by (simp add: server_progress_Nil)
next
  case (Cons i "is")
  show ?case
  proof (cases "polling c")
    case False
    then show ?thesis by (simp add: server_progress_Nil)
  next
    case True
    let ?d = "tick i (c\<lparr>clock := clock c + interval_ms c\<rparr>)"
    from assms have d: "processing_progress (trace ?d) =
                          processing_progress (trace c) @ reported_progress rep i"
      unfolding mirrors_def by simp
    from Cons.IH[of ?d] d True show ?thesis
      by (simp add: server_progress_Cons)
  qed
qed

lemma conforming_take:
  assumes "conforming rep is"
  shows "sorted (server_progress rep (take n is))"
    and "list_all (\<lambda>p. 0 \<le> p \<and> p \<le> 1) (server_progress rep (take n is))"
proof -
  have "server_progress rep is =
          server_progress rep (take n is) @ server_progress rep (drop n is)"
    by (simp add: server_progress_append[symmetric])
  with assms show "sorted (server_progress rep (take n is))"
    and "list_all (\<lambda>p. 0 \<le> p \<and> p \<le> 1) (server_progress rep (take n is))"
    by (simp_all add: conforming_def sorted_append)
qed

lemma sorted_from_zero:
  assumes "sorted xs" and "list_all (\<lambda>p. 0 \<le> p \<and> p \<le> 1) xs"
  shows "sorted (0 # xs :: rat list)"
  using assms by (simp add: list_all_iff)

lemma shown_progress_smart:
  "shown_progress c (run smart_tick (analyze_accepted j cached c) is) =
     0 # server_progress smart_reported
           (take (fired smart_tick (analyze_accepted j cached c) is) is)"
proof -
  have "processing_progress (trace (analyze_accepted j cached c)) =
          processing_progress (trace c) @ [0]"
    by (simp add: analyze_accepted_def startSmartPolling_def upd_defs processing_progress_def
          job_history_def)
  then show ?thesis
    by (simp add: shown_progress_def run_mirrors[OF smart_tick_mirrors])
qed

lemma shown_progress_upload:
  "shown_progress c (run polling_tick (upload_accepted j c) is) =
     0 # server_progress polling_reported
           (take (fired polling_tick (upload_accepted j c) is) is)"
proof -
  have "processing_progress (trace (upload_accepted j c)) =
          processing_progress (trace c) @ [0]"
    by (simp add: upload_accepted_def startPolling_def upd_defs processing_progress_def
          job_history_def)
  then show ?thesis
    by (simp add: shown_progress_def run_mirrors[OF polling_tick_mirrors])
qed

lemma shown_progress_render:
  "shown_progress c (run render_tick (startRenderPolling j c) is) =
     server_progress render_reported
       (take (fired render_tick (startRenderPolling j c) is) is)"
proof -
  have "processing_progress (trace (startRenderPolling j c)) = processing_progress (trace c)"
    by (simp add: startRenderPolling_def)
  then show ?thesis
    by (simp add: shown_progress_def run_mirrors[OF render_tick_mirrors])
qed

text \<open>
  Claim C1. A job starts on the page with status \<open>processing\<close> and progress 0, and every
  firing of its poller that reads a reply with status \<open>processing\<close> shows the progress of
  that reply, unchanged: the progress values observed with that status are 0 followed by
  the reported ones, one for each such firing, in order. For replies of a server that
  keeps the invariant of the data model they are therefore non-decreasing: of any two
  observation points with status \<open>processing\<close>, the later shows a progress greater than or
  equal to the earlier. The same holds for the poller of a render request, which shows
  no progress of its own at the start.
\<close>

theorem progress_non_decreasing:
  "shown_progress c (run smart_tick (analyze_accepted j cached c) is) =
     0 # server_progress smart_reported
           (take (fired smart_tick (analyze_accepted j cached c) is) is) \<and>
   shown_progress c (run polling_tick (upload_accepted j c) is) =
     0 # server_progress polling_reported
           (take (fired polling_tick (upload_accepted j c) is) is) \<and>
   shown_progress c (run render_tick (startRenderPolling j c) is) =
     server_progress render_reported
       (take (fired render_tick (startRenderPolling j c) is) is) \<and>
   (conforming smart_reported is \<longrightarrow>
      sorted (shown_progress c (run smart_tick (analyze_accepted j cached c) is))) \<and>
   (conforming polling_reported is \<longrightarrow>
      sorted (shown_progress c (run polling_tick (upload_accepted j c) is))) \<and>
   (conforming render_reported is \<longrightarrow>
      sorted (shown_progress c (run render_tick (startRenderPolling j c) is)))"
proof (intro conjI impI)
  show "shown_progress c (run smart_tick (analyze_accepted j cached c) is) =
          0 # server_progress smart_reported
                (take (fired smart_tick (analyze_accepted j cached c) is) is)"
    by (rule shown_progress_smart)
  show "shown_progress c (run polling_tick (upload_accepted j c) is) =
          0 # server_progress polling_reported
                (take (fired polling_tick (upload_accepted j c) is) is)"
    by (rule shown_progress_upload)
  show "shown_progress c (run render_tick (startRenderPolling j c) is) =
          server_progress render_reported
            (take (fired render_tick (startRenderPolling j c) is) is)"
    by (rule shown_progress_render)
next
  assume "conforming smart_reported is"
  from sorted_from_zero[OF conforming_take[OF this]]
  show "sorted (shown_progress c (run smart_tick (analyze_accepted j cached c) is))"
    unfolding shown_progress_smart .
next
  assume "conforming polling_reported is"
  from sorted_from_zero[OF conforming_take[OF this]]
  show "sorted (shown_progress c (run polling_tick (upload_accepted j c) is))"
    unfolding shown_progress_upload .
next
  assume "conforming render_reported is"
  from conforming_take(1)[OF this]
  show "sorted (shown_progress c (run render_tick (startRenderPolling j c) is))"
    unfolding shown_progress_render .
qed

theorem progress_non_decreasing_witness:
  "conforming smart_reported
     [ok (data ''processing'' (1/4)), ok (data ''processing'' (1/2)), ok (data ''completed'' 1)] \<and>
   shown_progress (page_load None 0)
     (run smart_tick (analyze_accepted ''j1'' False (page_load None 0))
        [ok (data ''processing'' (1/4)), ok (data ''processing'' (1/2)),
         ok (data ''completed'' 1)]) = [0, 1/4, 1/2] \<and>
   sorted (shown_progress (page_load None 0)
     (run smart_tick (analyze_accepted ''j1'' False (page_load None 0))
        [ok (data ''processing'' (1/4)), ok (data ''processing'' (1/2)),
         ok (data ''completed'' 1)]))"
proof -
  let ?is = "[ok (data ''processing'' (1/4)), ok (data ''processing'' (1/2)),
              ok (data ''completed'' 1)]"
  let ?c = "page_load None 0"
  have sp: "server_progress smart_reported ?is = [1/4, 1/2]"
    by (simp add: server_progress_Cons server_progress_Nil reported_progress_def
          smart_reported_def input_defs)
  have a: "conforming smart_reported ?is"
    unfolding conforming_def sp by simp
  have f: "fired smart_tick (analyze_accepted ''j1'' False ?c) ?is = 3"
    by (simp add: smart_tick_def upd_defs input_defs start_defs Let_def)
  from progress_non_decreasing[of ?c "''j1''" False ?is]
  have e: "shown_progress ?c (run smart_tick (analyze_accepted ''j1'' False ?c) ?is) =
             0 # server_progress smart_reported
                   (take (fired smart_tick (analyze_accepted ''j1'' False ?c) ?is) ?is)"
    by blast
  have e': "shown_progress ?c (run smart_tick (analyze_accepted ''j1'' False ?c) ?is) =
              [0, 1/4, 1/2]"
    unfolding e f using sp by simp
  from a progress_non_decreasing[of ?c "''j1''" False ?is]
  have "sorted (shown_progress ?c (run smart_tick (analyze_accepted ''j1'' False ?c) ?is))"
    by blast
  with a e' show ?thesis by blast
qed

subsection \<open>Terminal statuses recorded for one job\<close>

text \<open>
  Claim C2 at its failing input. The callback of \<^verbatim>\<open>startSmartPolling\<close> has branches for
  \<open>processing\<close>, \<open>completed\<close> and \<open>failed\<close> only, so it goes on polling a job that the
  server reports as \<open>cancelled\<close>. When the server then answers 404 three times (it has
  lost the job), the page marks the same job \<open>failed\<close>: the terminal statuses recorded for
  the job are \<open>cancelled\<close> and then \<open>failed\<close>. On the same replies \<^verbatim>\<open>startPolling\<close>, which
  stops on \<open>cancelled\<close>, records \<open>cancelled\<close> alone.
\<close>

theorem cancelled_then_failed_recorded:
  "terminal_statuses (trace (run smart_tick (analyze_accepted ''j1'' False (page_load None 0))
     [ok (data ''cancelled'' (1/2)), http_error 404, http_error 404, http_error 404])) =
     [''cancelled'', ''failed''] \<and>
   map job_id (job_history (trace (run smart_tick
     (analyze_accepted ''j1'' False (page_load None 0))
     [ok (data ''cancelled'' (1/2)), http_error 404, http_error 404, http_error 404]))) =
     [''j1'', ''j1'', ''j1''] \<and>
   terminal_statuses (trace (run polling_tick (upload_accepted ''j1'' (page_load None 0))
     [ok (data ''cancelled'' (1/2)), http_error 404, http_error 404, http_error 404])) =
     [''cancelled'']"
  by (simp add: smart_tick_def polling_tick_def upd_defs start_defs input_defs Let_def
        copy_status_def job_lost_smart_def terminal_statuses_def terminal_def job_history_def)

subsection \<open>Cancellation\<close>

lemma checkpoints_cancelled:
  "sj_status s = Cancelled \<Longrightarrow> sj_status (checkpoints rs s) = Cancelled"
  by (induction rs arbitrary: s) (simp_all add: checkpoint_def)

lemma cancelJob_acknowledged:
  assumes "currentJob c = Some j" and "job_id j \<noteq> []"
  shows "currentJob (cancelJob (Http code (Some True)) c) =
           Some (j\<lparr>status := ''cancelling'', stage := ''Cancelling...'',
                   detail := ''Waiting for current operation to complete''\<rparr>)"
  using assms by (simp add: cancelJob_def upd_defs Let_def)

lemma polling_tick_cancelled:
  assumes "polling_reported i = Some d" and "d_status d = ''cancelled''"
  shows "\<not> polling (polling_tick i c)"
    and "map_option status (currentJob (polling_tick i c)) = Some ''cancelled''"
  using assms
  by (auto simp: polling_reported_def polling_tick_def upd_defs Let_def
        split: fetched.splits if_splits)

text \<open>
  Claim C7. On the page, a cancel request that the server acknowledges shows the job as
  \<open>cancelling\<close>. On the server as the spec describes it, the request flips a processing
  job to cancelling, the next checkpoint of the stage makes it cancelled, and no later
  checkpoint or cancel request changes that status. When \<^verbatim>\<open>startPolling\<close> then receives
  the status \<open>cancelled\<close>, it shows it and stops polling, so that the page keeps showing
  the job as cancelled whatever later firings would have received.
\<close>

theorem cancel_reaches_cancelled:
  "(currentJob c = Some j \<and> job_id j \<noteq> [] \<longrightarrow>
      map_option status (currentJob (cancelJob (Http code (Some True)) c)) =
        Some ''cancelling'') \<and>
   (sj_status s = Processing \<longrightarrow>
      fst (request_cancel s) \<and>
      sj_status (snd (request_cancel s)) = Cancelling \<and>
      sj_status (checkpoint r (snd (request_cancel s))) = Cancelled \<and>
      sj_status (checkpoints rs (checkpoint r (snd (request_cancel s)))) = Cancelled \<and>
      sj_status (snd (request_cancel (checkpoint r (snd (request_cancel s))))) = Cancelled) \<and>
   (polling c \<and> sj_status s = Processing \<longrightarrow>
      \<not> polling (run polling_tick c
                   (job_response (checkpoint r (snd (request_cancel s))) # rest)) \<and>
      map_option status
        (currentJob (run polling_tick c
                   (job_response (checkpoint r (snd (request_cancel s))) # rest))) =
        Some ''cancelled'')"
proof (intro conjI impI)
  assume "currentJob c = Some j \<and> job_id j \<noteq> []"
  then show "map_option status (currentJob (cancelJob (Http code (Some True)) c)) =
               Some ''cancelling''"
    by (simp add: cancelJob_acknowledged)
next
  assume p: "sj_status s = Processing"
  then show "fst (request_cancel s)" "sj_status (snd (request_cancel s)) = Cancelling"
    by (simp_all add: request_cancel_def)
  from p show x: "sj_status (checkpoint r (snd (request_cancel s))) = Cancelled"
    by (simp add: request_cancel_def checkpoint_def)
  from x show "sj_status (checkpoints rs (checkpoint r (snd (request_cancel s)))) = Cancelled"
    by (rule checkpoints_cancelled)
  from x show "sj_status (snd (request_cancel (checkpoint r (snd (request_cancel s))))) =
                 Cancelled"
    by (simp add: request_cancel_def)
next
  assume a: "polling c \<and> sj_status s = Processing"
  let ?i = "job_response (checkpoint r (snd (request_cancel s)))"
  let ?d = "c\<lparr>clock := clock c + interval_ms c\<rparr>"
  from a have "sj_status (checkpoint r (snd (request_cancel s))) = Cancelled"
    by (simp add: request_cancel_def checkpoint_def)
  then obtain d where d: "polling_reported ?i = Some d" "d_status d = ''cancelled''"
    by (simp add: job_response_def polling_reported_def)
  from a polling_tick_cancelled[OF d, of ?d]
  have run: "run polling_tick c (?i # rest) = polling_tick ?i ?d"
    by (simp add: run_not_polling)
  show "\<not> polling (run polling_tick c (?i # rest))"
    unfolding run by (rule polling_tick_cancelled[OF d])
  show "map_option status (currentJob (run polling_tick c (?i # rest))) = Some ''cancelled''"
    unfolding run by (rule polling_tick_cancelled[OF d])
qed

theorem cancel_reaches_cancelled_witness:
  "currentJob (upload_accepted ''j1'' (page_load None 0)) =
     Some \<lparr>job_id = ''j1'', status = ''processing'', progress = 0, stage = ''Starting'',
            detail = '''', error = ''''\<rparr> \<and>
   polling (upload_accepted ''j1'' (page_load None 0)) \<and>
   sj_status \<lparr>sj_status = Processing, sj_progress = 1/2, sj_error = ''''\<rparr> = Processing \<and>
   map_option status
     (currentJob (cancelJob (Http 200 (Some True)) (upload_accepted ''j1'' (page_load None 0)))) =
     Some ''cancelling'' \<and>
   sj_status (checkpoint StageCompletes
      (snd (request_cancel \<lparr>sj_status = Processing, sj_progress = 1/2, sj_error = ''''\<rparr>))) =
     Cancelled \<and>
   \<not> polling (run polling_tick (upload_accepted ''j1'' (page_load None 0))
        (job_response (checkpoint StageCompletes
           (snd (request_cancel \<lparr>sj_status = Processing, sj_progress = 1/2, sj_error = ''''\<rparr>)))
         # [ok (data ''processing'' 1)]))"
proof -
  let ?c = "upload_accepted ''j1'' (page_load None 0)"
  let ?j = "\<lparr>job_id = ''j1'', status = ''processing'', progress = 0, stage = ''Starting'',
            detail = '''', error = ''''\<rparr>"
  let ?s = "\<lparr>sj_status = Processing, sj_progress = 1/2, sj_error = ''''\<rparr>"
  have a: "currentJob ?c = Some ?j" "polling ?c" "job_id ?j \<noteq> []"
    by (simp_all add: start_defs upd_defs)
  have b: "sj_status ?s = Processing" by simp
  from a b cancel_reaches_cancelled[of ?c ?j 200 ?s StageCompletes "[]"
      "[ok (data ''processing'' 1)]"]
  show ?thesis by blast
qed

subsection \<open>Two intervals for one job\<close>

lemmas browser_defs = enter_def leave_def mount_cleanup_def persist_rendered_def on_screen_def
  browser_start_def persist_effect_def resume_effect_def

text \<open>
  Claim C6 at its failing input. When the user has left the Clipper tab and come back
  while a job was processing, two intervals poll that job: the cleanup of the first
  instance cleared nothing, and the resume effect of the second registered another one.
  The first interval observes \<open>completed\<close> at 4100 ms, fetches the results and clears
  itself; the second is still registered, issues a further status fetch for the job at
  5500 ms and fetches the results a second time.
\<close>

theorem second_interval_fetches_again:
  "map (\<lambda>pc. (polling (snd pc), poll_job (snd pc)))
     (instances (steps (take 5 left_and_reopened) browser_start)) =
     [(True, ''j1''), (True, ''j1'')] \<and>
   filter (\<lambda>te. is_request (snd te)) (log (steps left_and_reopened browser_start)) =
     [(2100, GetJobStatus ''j1''), (2100, GetJobLogs ''j1''),
      (4100, GetJobStatus ''j1''), (4100, GetJobLogs ''j1''), (4100, GetSmartResults ''j1''),
      (5500, GetJobStatus ''j1''), (5500, GetJobLogs ''j1''), (5500, GetSmartResults ''j1'')]"
  by (simp add: left_and_reopened_def browser_defs smart_tick_def upd_defs start_defs
        input_defs Let_def copy_status_def)

end
